theory Spec2Isabelle
  imports Complex_Main "HOL-Library.Log_Nat"
begin

section \<open>Data model (src/index.ts, types)\<close>

text \<open>
  The order status is the string union \<^verbatim>\<open>OrderStatus\<close> of the source; \<open>status_name\<close> gives
  back the string that is written into a JSON message.
\<close>

datatype OrderStatus = pending | routing | building | submitted | confirmed | failed

fun status_name :: "OrderStatus \<Rightarrow> string" where
  "status_name pending = ''pending''"
| "status_name routing = ''routing''"
| "status_name building = ''building''"
| "status_name submitted = ''submitted''"
| "status_name confirmed = ''confirmed''"
| "status_name failed = ''failed''"

text \<open>
  A \<^verbatim>\<open>Date\<close> is the number of milliseconds it holds. A JavaScript number is the real
  number it denotes. The optional fields \<^verbatim>\<open>txHash?\<close> and \<^verbatim>\<open>error?\<close> are options (\<open>None\<close>: the property is
  absent). The field \<^verbatim>\<open>id\<close> is written \<open>id'\<close>.
\<close>

type_synonym Date = nat

record Order =
  id' :: string
  tokenIn :: string
  tokenOut :: string
  amount :: real
  status :: OrderStatus
  txHash :: "string option"
  error :: "string option"
  createdAt :: Date
  updatedAt :: Date

text \<open>The validated request body \<^verbatim>\<open>OrderRequest\<close>.\<close>

record OrderRequest =
  req_tokenIn :: string
  req_tokenOut :: string
  req_amount :: real

text \<open>
  A thrown value: an \<^verbatim>\<open>Error\<close> with its message, or any value that is not an instance of
  \<^verbatim>\<open>Error\<close>.
\<close>

datatype fault = Error string | NonError

section \<open>JavaScript numbers\<close>

text \<open>
  A JavaScript number is an IEEE 754 binary64 value; here it is the real number it denotes.
  Every arithmetic operation and every decimal literal rounds the exact result to the
  nearest binary64 value, ties to even: \<open>fl\<close>. \<open>expo x\<close> is the binary exponent of \<open>x\<close>, the
  integer \<open>e\<close> with \<open>2 ^ e \<le> \<bar>x\<bar> < 2 ^ (e + 1)\<close>, computed from the bit length of the integer
  part of \<open>\<bar>x\<bar>\<close> or of \<open>1 / \<bar>x\<bar>\<close>. The spacing of the binary64 values around \<open>x\<close> is \<open>ulp x\<close>
  (53 significant bits, least normal exponent \<open>-1022\<close>, below it the subnormal spacing).
  Overflow to an infinity (beyond \<open>2 ^ 1024\<close>) and \<^verbatim>\<open>NaN\<close> are not modelled: no value of
  this program comes near them.
\<close>

definition pow2 :: "int \<Rightarrow> real" where
  "pow2 k = (if 0 \<le> k then 2 ^ nat k else 1 / 2 ^ nat (- k))"

definition rne :: "real \<Rightarrow> int" where
  "rne x = (let f = \<lfloor>x\<rfloor>; d = x - of_int f in
            if d < 1/2 then f else if 1/2 < d then f + 1 else if even f then f else f + 1)"

definition expo :: "real \<Rightarrow> int" where
  "expo x = (if 1 \<le> \<bar>x\<bar> then bitlen \<lfloor>\<bar>x\<bar>\<rfloor> - 1 else - bitlen (\<lceil>1 / \<bar>x\<bar>\<rceil> - 1))"

definition ulp :: "real \<Rightarrow> real" where
  "ulp x = pow2 (max (expo x) (- 1022) - 52)"

definition fl :: "real \<Rightarrow> real" where
  "fl x = (if x = 0 then 0 else of_int (rne (x / ulp x)) * ulp x)"

definition fadd :: "real \<Rightarrow> real \<Rightarrow> real" where
  "fadd x y = fl (x + y)"

definition fsub :: "real \<Rightarrow> real \<Rightarrow> real" where
  "fsub x y = fl (x - y)"

definition fmul :: "real \<Rightarrow> real \<Rightarrow> real" where
  "fmul x y = fl (x * y)"

section \<open>MockDexRouter\<close>

text \<open>
  \<open>rnd\<close> is the value of the call of \<^verbatim>\<open>Math.random()\<close> in the price expression, a number
  with \<open>0 \<le> rnd < 1\<close>. The price expression of all three methods is
  \<^verbatim>\<open>100 * (1 + (Math.random() * 0.06 - 0.03))\<close>. The simulated delays (\<^verbatim>\<open>setTimeout\<close>)
  only take time and are left out; the three methods never throw.
\<close>

definition getRaydiumQuote :: "real \<Rightarrow> string \<Rightarrow> string \<Rightarrow> real \<Rightarrow> real" where
  "getRaydiumQuote rnd tIn tOut amt =
     (let basePrice = 100
      in fmul basePrice (fadd 1 (fsub (fmul rnd (fl (6/100))) (fl (3/100)))))"

definition getMeteoraQuote :: "real \<Rightarrow> string \<Rightarrow> string \<Rightarrow> real \<Rightarrow> real" where
  "getMeteoraQuote rnd tIn tOut amt =
     (let basePrice = 100
      in fmul basePrice (fadd 1 (fsub (fmul rnd (fl (6/100))) (fl (3/100)))))"

record SwapResult =
  res_txHash :: string
  executedPrice :: real

text \<open>\<open>uuid\<close> is the value of the call of \<^verbatim>\<open>randomUUID()\<close>.\<close>

definition executeSwap :: "string \<Rightarrow> real \<Rightarrow> string \<Rightarrow> Order \<Rightarrow> SwapResult" where
  "executeSwap uuid rnd dex order =
     \<lparr> res_txHash = dex @ ''_'' @ uuid,
       executedPrice = fmul 100 (fadd 1 (fsub (fmul rnd (fl (6/100))) (fl (3/100)))) \<rparr>"



section \<open>JSON messages\<close>

text \<open>
  An object literal is the list of its properties in insertion order; a property whose
  value is \<^verbatim>\<open>undefined\<close> has the value \<open>None\<close>. Spreading an object into a literal
  (\<^verbatim>\<open>{a, b, ...src}\<close>) assigns the properties of \<open>src\<close> one by one: an existing key keeps
  its place and takes the new value, a new key goes to the end. \<^verbatim>\<open>JSON.stringify\<close> leaves
  out the properties that are \<^verbatim>\<open>undefined\<close>; its text is kept as the list of the keys and
  values it prints, in order.
\<close>

datatype json = JString string | JNumber real

type_synonym jsobject = "(string \<times> json option) list"

type_synonym message = "(string \<times> json) list"

fun js_put :: "string \<Rightarrow> json option \<Rightarrow> jsobject \<Rightarrow> jsobject" where
  "js_put k v [] = [(k, v)]"
| "js_put k v ((k', v') # ps) = (if k = k' then (k, v) # ps else (k', v') # js_put k v ps)"

fun js_spread :: "jsobject \<Rightarrow> jsobject \<Rightarrow> jsobject" where
  "js_spread obj [] = obj"
| "js_spread obj ((k, v) # src) = js_spread (js_put k v obj) src"

fun JSON_stringify :: "jsobject \<Rightarrow> message" where
  "JSON_stringify [] = []"
| "JSON_stringify ((k, None) # ps) = JSON_stringify ps"
| "JSON_stringify ((k, Some j) # ps) = (k, j) # JSON_stringify ps"

section \<open>The process state\<close>

text \<open>
  The two global maps \<^verbatim>\<open>orderStore\<close> and \<^verbatim>\<open>connections\<close>, the jobs added to the queue
  \<^verbatim>\<open>orderQueue\<close>, and the history of the process: every call of \<^verbatim>\<open>orderStore.set\<close>, of
  \<^verbatim>\<open>send\<close> on a socket and of \<^verbatim>\<open>fastify.log.info\<close>, in program order. A socket is known by
  its identity only.

  \<open>delivery socket\<close> is what becomes of a message handed to \<^verbatim>\<open>send\<close> on the socket: the
  transport delivers it (\<open>None\<close>), or the delivery fails with a fault (the socket is closing
  or closed, the connection is lost). The transport reports such a failure to the callback
  of \<^verbatim>\<open>send\<close>; every \<^verbatim>\<open>send\<close> of this program is called without a callback, so no handler
  reads it.

  An order object that the store holds is the very object a handler goes on to mutate.
  The handlers assign to its fields only right before they call \<^verbatim>\<open>orderStore.set\<close> with
  it, with no \<^verbatim>\<open>await\<close> in between, so the store is modelled as holding the value written
  by the latest \<^verbatim>\<open>set\<close>.
\<close>

type_synonym WebSocket = nat

datatype effect = StoreSet Order | WsSend WebSocket message | LogInfo string

record JobOptions =
  attempts :: nat
  backoff_type :: string
  backoff_delay :: nat

record Job =
  job_name :: string
  job_data :: Order
  job_opts :: JobOptions

record world =
  orderStore :: "string \<rightharpoonup> Order"
  connections :: "string \<rightharpoonup> WebSocket"
  orderQueue :: "Job list"
  trace :: "effect list"
  delivery :: "WebSocket \<Rightarrow> fault option"

definition orderStore_set :: "Order \<Rightarrow> world \<Rightarrow> world" where
  "orderStore_set order w =
     w\<lparr> orderStore := (orderStore w)(id' order \<mapsto> order), trace := trace w @ [StoreSet order] \<rparr>"

definition socket_send :: "WebSocket \<Rightarrow> message \<Rightarrow> world \<Rightarrow> world" where
  "socket_send socket msg w = w\<lparr> trace := trace w @ [WsSend socket msg] \<rparr>"

definition log_info :: "string \<Rightarrow> world \<Rightarrow> world" where
  "log_info line w = w\<lparr> trace := trace w @ [LogInfo line] \<rparr>"

definition orderQueue_add :: "string \<Rightarrow> Order \<Rightarrow> JobOptions \<Rightarrow> world \<Rightarrow> world" where
  "orderQueue_add name order opts w =
     w\<lparr> orderQueue := orderQueue w @ [\<lparr> job_name = name, job_data = order, job_opts = opts \<rparr>] \<rparr>"

section \<open>The order processing worker\<close>

text \<open>
  What one invocation of the handler takes from outside:
  \<^item> \<open>now st\<close>: the value of \<^verbatim>\<open>new Date()\<close> in the transition to status \<open>st\<close>;
  \<^item> \<open>send_result st\<close>: what the call of \<^verbatim>\<open>connection.send\<close> in the transition to \<open>st\<close>
    does, when it is made: it returns (\<open>None\<close>) or throws (\<open>Some f\<close>). The transport throws
    from \<^verbatim>\<open>send\<close> only on a socket that is still connecting, which a socket of
    \<^verbatim>\<open>connections\<close> no longer is; a delivery that fails afterwards is in \<open>delivery\<close>;
  \<^item> \<open>quotes order\<close>: the outcome of \<^verbatim>\<open>await Promise.all([getRaydiumQuote, getMeteoraQuote])\<close>,
    the two prices or the thrown value;
  \<^item> \<open>swap dex order\<close>: the outcome of \<^verbatim>\<open>await router.executeSwap(dex, order)\<close>.

  The handler creates a \<^verbatim>\<open>MockDexRouter\<close>, whose methods never throw: \<open>mock_env\<close>. The
  \<^verbatim>\<open>catch\<close> block is written for any thrown value, so the handler is modelled for any
  outcome of the two awaited calls. One invocation runs with no other handler in
  between, at its two awaits too.
\<close>

record worker_env =
  now :: "OrderStatus \<Rightarrow> Date"
  send_result :: "OrderStatus \<Rightarrow> fault option"
  quotes :: "Order \<Rightarrow> fault + real \<times> real"
  swap :: "string \<Rightarrow> Order \<Rightarrow> fault + SwapResult"

definition mock_env ::
  "(OrderStatus \<Rightarrow> Date) \<Rightarrow> (OrderStatus \<Rightarrow> fault option) \<Rightarrow> real \<Rightarrow> real \<Rightarrow> real \<Rightarrow> string \<Rightarrow> worker_env"
where
  "mock_env clock sends rndA rndB rndX uuid =
     \<lparr> now = clock,
       send_result = sends,
       quotes = (\<lambda>order. Inr (getRaydiumQuote rndA (tokenIn order) (tokenOut order) (amount order),
                                getMeteoraQuote rndB (tokenIn order) (tokenOut order) (amount order))),
       swap = (\<lambda>dex order. Inr (executeSwap uuid rndX dex order)) \<rparr>"

text \<open>
  A step of the handler returns or throws, and leaves the order object and the process
  state as they are at that moment.
\<close>

type_synonym 'a outcome = "(fault + 'a) \<times> Order \<times> world"

fun andThen :: "'a outcome \<Rightarrow> ('a \<Rightarrow> Order \<times> world \<Rightarrow> 'b outcome) \<Rightarrow> 'b outcome" where
  "andThen (Inl f, s) k = (Inl f, s)"
| "andThen (Inr a, s) k = k a s"

definition await :: "fault + 'a \<Rightarrow> Order \<times> world \<Rightarrow> 'a outcome" where
  "await r s = (r, s)"

text \<open>The closure \<^verbatim>\<open>updateStatus(status, additionalData = {})\<close>.\<close>

definition updateStatus :: "worker_env \<Rightarrow> OrderStatus \<Rightarrow> jsobject \<Rightarrow> Order \<times> world \<Rightarrow> unit outcome" where
  "updateStatus env st additionalData s =
     (let order = (fst s)\<lparr> status := st, updatedAt := now env st \<rparr>;
          w = orderStore_set order (snd s)
      in case connections w (id' order) of
           None \<Rightarrow> (Inr (), order, w)
         | Some connection \<Rightarrow>
             (let msg = JSON_stringify
                          (js_spread [(''status'', Some (JString (status_name st))),
                                      (''orderId'', Some (JString (id' order)))]
                                     additionalData)
              in (case send_result env st of None \<Rightarrow> Inr () | Some f \<Rightarrow> Inl f,
                  order, socket_send connection msg w)))"

text \<open>The venue choice: \<^verbatim>\<open>raydiumPrice <= meteoraPrice ? 'raydium' : 'meteora'\<close>.\<close>

definition bestDex :: "real \<Rightarrow> real \<Rightarrow> string" where
  "bestDex raydiumPrice meteoraPrice =
     (if raydiumPrice \<le> meteoraPrice then ''raydium'' else ''meteora'')"

text \<open>The \<^verbatim>\<open>try\<close> block.\<close>

definition worker_try :: "worker_env \<Rightarrow> Order \<times> world \<Rightarrow> unit outcome" where
  "worker_try env s0 =
     andThen (updateStatus env routing [] s0) (\<lambda>_ s1.
     andThen (await (quotes env (fst s1)) s1) (\<lambda>(raydiumPrice, meteoraPrice) s2.
       let dex = bestDex raydiumPrice meteoraPrice;
           s3 = (fst s2, log_info (''Routing order '' @ id' (fst s2) @ '' to '' @ dex) (snd s2))
       in
     andThen (updateStatus env building [] s3) (\<lambda>_ s4.
     andThen (updateStatus env submitted [] s4) (\<lambda>_ s5.
     andThen (await (swap env dex (fst s5)) s5) (\<lambda>result s6.
       let s7 = ((fst s6)\<lparr> txHash := Some (res_txHash result) \<rparr>, snd s6)
       in updateStatus env confirmed
            [(''txHash'', Some (JString (res_txHash result))),
             (''executedPrice'', Some (JNumber (executedPrice result)))] s7)))))"

text \<open>
  The \<^verbatim>\<open>catch\<close> block: \<^verbatim>\<open>error instanceof Error ? error.message : 'Unknown error'\<close> is
  \<open>fault_message\<close>. The block ends with \<^verbatim>\<open>throw error\<close>, unless its own \<^verbatim>\<open>send\<close> has thrown
  before.
\<close>

fun fault_message :: "fault \<Rightarrow> string" where
  "fault_message (Error m) = m"
| "fault_message NonError = ''Unknown error''"

record WorkerResult =
  success :: bool
  result_order :: Order

definition worker_catch :: "worker_env \<Rightarrow> fault \<Rightarrow> Order \<times> world \<Rightarrow> (fault + WorkerResult) \<times> world" where
  "worker_catch env e s =
     (let order = (fst s)\<lparr> status := failed, error := Some (fault_message e),
                            updatedAt := now env failed \<rparr>;
          w = orderStore_set order (snd s)
      in case connections w (id' order) of
           None \<Rightarrow> (Inl e, w)
         | Some connection \<Rightarrow>
             (let msg = JSON_stringify
                          [(''status'', Some (JString ''failed'')),
                           (''orderId'', Some (JString (id' order))),
                           (''error'', map_option JString (error order))]
              in (case send_result env failed of None \<Rightarrow> Inl e | Some f \<Rightarrow> Inl f,
                  socket_send connection msg w)))"

text \<open>
  The handler, called with the order of the job's data (the queue hands each attempt the
  order as it was enqueued). It returns \<^verbatim>\<open>{ success: true, order }\<close> or throws to the
  queue.
\<close>

definition worker :: "worker_env \<Rightarrow> Order \<Rightarrow> world \<Rightarrow> (fault + WorkerResult) \<times> world" where
  "worker env job_order w =
     (case worker_try env (job_order, w) of
        (Inr _, order, w') \<Rightarrow> (Inr \<lparr> success = True, result_order = order \<rparr>, w')
      | (Inl e, order, w') \<Rightarrow> worker_catch env e (order, w'))"

section \<open>The submission handler\<close>

text \<open>
  The handler of \<^verbatim>\<open>POST /api/orders/execute\<close>, called with a body that has passed the
  schema: it has the three properties of \<^verbatim>\<open>OrderRequest\<close> and no other, so spreading it into
  the order sets \<open>tokenIn\<close>, \<open>tokenOut\<close> and \<open>amount\<close>. \<open>uuid\<close> is the value of \<^verbatim>\<open>randomUUID()\<close>,
  \<open>t1\<close> and \<open>t2\<close> are the values of the two calls of \<^verbatim>\<open>new Date()\<close>. The queue and its broker
  are outside the repository: \<open>add_result\<close> is the outcome of \<^verbatim>\<open>await orderQueue.add(...)\<close>,
  the job is added (\<open>None\<close>) or the call is rejected with a fault and no job is added. A
  job that is added is kept as the name, the order and the options that are handed over.
  The \<^verbatim>\<open>await\<close> has no \<^verbatim>\<open>try\<close> around it: when it is rejected the handler throws, after the
  order has been stored and before any reply.
\<close>

record Reply =
  statusCode :: nat
  body :: message

definition submit_order ::
  "string \<Rightarrow> Date \<Rightarrow> Date \<Rightarrow> fault option \<Rightarrow> OrderRequest \<Rightarrow> world \<Rightarrow> (fault + Reply) \<times> world"
where
  "submit_order uuid t1 t2 add_result req w =
     (let order = \<lparr> id' = uuid, tokenIn = req_tokenIn req, tokenOut = req_tokenOut req,
                    amount = req_amount req, status = pending, txHash = None, error = None,
                    createdAt = t1, updatedAt = t2 \<rparr>;
          w1 = orderStore_set order w
      in case add_result of
           Some f \<Rightarrow> (Inl f, w1)
         | None \<Rightarrow>
             (let w2 = orderQueue_add ''execute_order'' order
                         \<lparr> attempts = 3, backoff_type = ''exponential'', backoff_delay = 1000 \<rparr> w1
              in (Inr \<lparr> statusCode = 202,
                       body = JSON_stringify
                                [(''orderId'', Some (JString (id' order))),
                                 (''status'', Some (JString ''pending'')),
                                 (''wsEndpoint'',
                                  Some (JString (''ws://localhost:3000/ws/'' @ id' order)))] \<rparr>,
                  w2)))"

section \<open>The WebSocket endpoint\<close>

text \<open>
  The handler of \<^verbatim>\<open>/ws/:orderId\<close> for a new socket, and the socket's \<^verbatim>\<open>close\<close> listener.
  \<open>send_outcome\<close> is what the call of \<^verbatim>\<open>send\<close> does when it is made: it returns
  (\<open>None\<close>) or throws.
\<close>

definition snapshot :: "Order \<Rightarrow> message" where
  "snapshot order =
     JSON_stringify
       [(''status'', Some (JString (status_name (status order)))),
        (''orderId'', Some (JString (id' order))),
        (''txHash'', map_option JString (txHash order)),
        (''error'', map_option JString (error order))]"

definition ws_connect :: "fault option \<Rightarrow> string \<Rightarrow> WebSocket \<Rightarrow> world \<Rightarrow> fault option \<times> world" where
  "ws_connect send_outcome orderId socket w =
     (let w1 = w\<lparr> connections := (connections w)(orderId \<mapsto> socket) \<rparr>
      in case orderStore w1 orderId of
           None \<Rightarrow> (None, w1)
         | Some order \<Rightarrow> (send_outcome, socket_send socket (snapshot order) w1))"

definition ws_close :: "string \<Rightarrow> world \<Rightarrow> world" where
  "ws_close orderId w = w\<lparr> connections := (connections w)(orderId := None) \<rparr>"

section \<open>Notions used in the statements\<close>

text \<open>
  \<open>pushes w orderId msg\<close> is what a notification does in the state \<open>w\<close>: one \<^verbatim>\<open>send\<close> on
  the socket bound to \<open>orderId\<close>, nothing when none is bound. \<open>send_fault\<close> is the value
  that a notification throws in the transition to a status, if any. \<open>writes\<close> are the
  orders written by \<^verbatim>\<open>orderStore.set\<close> in a history, \<open>pushed\<close> the messages sent on
  sockets.
\<close>

definition pushes :: "world \<Rightarrow> string \<Rightarrow> message \<Rightarrow> effect list" where
  "pushes w orderId msg =
     (case connections w orderId of None \<Rightarrow> [] | Some socket \<Rightarrow> [WsSend socket msg])"

definition send_fault :: "worker_env \<Rightarrow> world \<Rightarrow> string \<Rightarrow> OrderStatus \<Rightarrow> fault option" where
  "send_fault env w orderId st =
     (case connections w orderId of None \<Rightarrow> None | Some socket \<Rightarrow> send_result env st)"

fun writes :: "effect list \<Rightarrow> Order list" where
  "writes [] = []"
| "writes (StoreSet order # es) = order # writes es"
| "writes (e # es) = writes es"

fun pushed :: "effect list \<Rightarrow> (WebSocket \<times> message) list" where
  "pushed [] = []"
| "pushed (WsSend socket msg # es) = (socket, msg) # pushed es"
| "pushed (e # es) = pushed es"


text \<open>The invariant of a stored order: a hash only when confirmed, an error only when failed.\<close>

definition order_inv :: "Order \<Rightarrow> bool" where
  "order_inv order =
     ((txHash order = None \<or> status order = confirmed) \<and>
      (error order = None \<or> status order = failed))"

section \<open>A concrete order and its runs\<close>

definition demo_id :: string where
  "demo_id = ''123e4567-e89b-12d3-a456-426614174000''"

definition demo_request :: OrderRequest where
  "demo_request = \<lparr> req_tokenIn = ''SOL'', req_tokenOut = ''USDC'', req_amount = 3/2 \<rparr>"

definition demo_order :: Order where
  "demo_order = \<lparr> id' = demo_id, tokenIn = ''SOL'', tokenOut = ''USDC'', amount = 3/2,
                   status = pending, txHash = None, error = None,
                   createdAt = 1000, updatedAt = 1001 \<rparr>"

definition world_init :: world where
  "world_init = \<lparr> orderStore = Map.empty, connections = Map.empty, orderQueue = [], trace = [],
                    delivery = (\<lambda>socket. None) \<rparr>"

text \<open>The state after the order has been submitted, and after a client has connected.\<close>

definition demo_world :: world where
  "demo_world = snd (submit_order demo_id 1000 1001 None demo_request world_init)"

definition demo_world_connected :: world where
  "demo_world_connected = snd (ws_connect None demo_id 7 demo_world)"

fun demo_clock :: "OrderStatus \<Rightarrow> Date" where
  "demo_clock pending = 1001"
| "demo_clock routing = 2000"
| "demo_clock building = 2201"
| "demo_clock submitted = 2202"
| "demo_clock confirmed = 4700"
| "demo_clock failed = 4701"

definition swap_uuid :: string where
  "swap_uuid = ''9b2e4f6a-0c1d-4e8f-a3b5-7d6c5e4f3a2b''"

text \<open>
  A run of the worker with the mock router in which no \<^verbatim>\<open>send\<close> throws, and one in which
  the quotes fail and the sends are given: \<open>never_throws\<close>, or \<open>throws_at bad\<close>, which throws
  in the transition to \<open>bad\<close>.
\<close>

definition env_ok :: "real \<Rightarrow> real \<Rightarrow> worker_env" where
  "env_ok rndA rndB = mock_env demo_clock (\<lambda>st. None) rndA rndB 0 swap_uuid"

definition never_throws :: "OrderStatus \<Rightarrow> fault option" where
  "never_throws st = None"

definition throws_at :: "OrderStatus \<Rightarrow> OrderStatus \<Rightarrow> fault option" where
  "throws_at bad st = (if st = bad then Some (Error ''socket closed'') else None)"

definition env_quotes_fail :: "(OrderStatus \<Rightarrow> fault option) \<Rightarrow> worker_env" where
  "env_quotes_fail sends =
     (mock_env demo_clock sends 0 0 0 swap_uuid)\<lparr> quotes := (\<lambda>order. Inl (Error ''quote timeout'')) \<rparr>"

text \<open>What the venue execution does when the venue is down.\<close>

definition swap_down :: "Order \<Rightarrow> fault + SwapResult" where
  "swap_down order = Inl (Error ''venue down'')"

text \<open>
  A transport on which every delivery to socket \<open>7\<close> fails, a rejected enqueue, and a
  second request and order.
\<close>

definition socket_closing :: "WebSocket \<Rightarrow> fault option" where
  "socket_closing socket =
     (if socket = 7 then Some (Error ''WebSocket is not open: readyState 2 (CLOSING)'') else None)"




section \<open>Rounding to binary64\<close>

lemma pow2_powr: "pow2 k = 2 powr (of_int k)"
  unfolding pow2_def
  by (auto simp: powr_realpow[symmetric] powr_minus divide_inverse)

lemma pow2_pos: "0 < pow2 k"
  by (simp add: pow2_powr)

lemma pow2_mono: "a \<le> b \<Longrightarrow> pow2 a \<le> pow2 b"
  by (simp add: pow2_powr)

lemma pow2_add: "pow2 (a + b) = pow2 a * pow2 b"
  by (simp add: pow2_powr powr_add)

lemma pow2_split53: "pow2 (e + 1) = pow2 53 * pow2 (e - 52)"
proof -
  have "e + 1 = 53 + (e - 52)" by simp
  then show ?thesis by (simp only: pow2_add)
qed

lemma pow2_split52: "pow2 e = pow2 52 * pow2 (e - 52)"
proof -
  have "e = 52 + (e - 52)" by simp
  then show ?thesis using pow2_add[of 52 "e - 52"] by simp
qed

lemma pow2_less: "pow2 a < pow2 b \<Longrightarrow> a < b"
  by (simp add: pow2_powr)

lemma pow2_minus: "pow2 (- a) = 1 / pow2 a"
  by (simp add: pow2_powr powr_minus divide_inverse)

lemma expo_bounds:
  assumes "x \<noteq> 0"
  shows "pow2 (expo x) \<le> \<bar>x\<bar>" "\<bar>x\<bar> < pow2 (expo x + 1)"
proof -
  have "pow2 (expo x) \<le> \<bar>x\<bar> \<and> \<bar>x\<bar> < pow2 (expo x + 1)"
  proof (cases "1 \<le> \<bar>x\<bar>")
    case True
    let ?n = "\<lfloor>\<bar>x\<bar>\<rfloor>"
    have n: "0 < ?n" using True by linarith
    have b: "1 \<le> bitlen ?n" using n bitlen_eq_zero_iff[of ?n] bitlen_nonneg[of ?n] by linarith
    from bitlen_bounds[OF n] have lo: "2 ^ nat (bitlen ?n - 1) \<le> ?n" and hi: "?n < 2 ^ nat (bitlen ?n)"
      by simp_all
    have e: "expo x = bitlen ?n - 1" using True by (simp add: expo_def)
    have "pow2 (expo x) = of_int (2 ^ nat (bitlen ?n - 1))" using b by (simp add: e pow2_def)
    also have "\<dots> \<le> of_int ?n" using lo by (simp only: of_int_le_iff)
    also have "\<dots> \<le> \<bar>x\<bar>" by simp
    finally have A: "pow2 (expo x) \<le> \<bar>x\<bar>" .
    have "?n + 1 \<le> 2 ^ nat (bitlen ?n)" using hi by simp
    then have "of_int (?n + 1) \<le> (of_int (2 ^ nat (bitlen ?n)) :: real)" by (simp only: of_int_le_iff)
    moreover have "\<bar>x\<bar> < of_int (?n + 1)" by linarith
    moreover have "pow2 (expo x + 1) = of_int (2 ^ nat (bitlen ?n))" using b by (simp add: e pow2_def)
    ultimately have "\<bar>x\<bar> < pow2 (expo x + 1)" by linarith
    with A show ?thesis by simp
  next
    case False
    let ?y = "1 / \<bar>x\<bar>"
    let ?m = "\<lceil>?y\<rceil>"
    have x: "0 < \<bar>x\<bar>" "\<bar>x\<bar> < 1" using assms False by simp_all
    then have y: "1 < ?y" by simp
    then have m: "0 < ?m - 1" by linarith
    let ?b = "bitlen (?m - 1)"
    have b: "1 \<le> ?b" using m bitlen_eq_zero_iff[of "?m - 1"] bitlen_nonneg[of "?m - 1"] by linarith
    from bitlen_bounds[OF m] have lo: "2 ^ nat (?b - 1) \<le> ?m - 1" and hi: "?m - 1 < 2 ^ nat ?b"
      by simp_all
    have e: "expo x = - ?b" using False by (simp add: expo_def)
    have "of_int (2 ^ nat (?b - 1)) \<le> (of_int (?m - 1) :: real)" using lo by (simp only: of_int_le_iff)
    moreover have "of_int (?m - 1) < ?y" by linarith
    ultimately have "of_int (2 ^ nat (?b - 1)) < ?y" by linarith
    then have ylo: "pow2 (?b - 1) < ?y" using b by (simp add: pow2_def)
    have "?m \<le> 2 ^ nat ?b" using hi by simp
    then have "of_int ?m \<le> (of_int (2 ^ nat ?b) :: real)" by (simp only: of_int_le_iff)
    moreover have "?y \<le> of_int ?m" by linarith
    ultimately have "?y \<le> of_int (2 ^ nat ?b)" by linarith
    then have yhi: "?y \<le> pow2 ?b" using b by (simp add: pow2_def)
    have A: "pow2 (- ?b) \<le> \<bar>x\<bar>"
    proof -
      have "1 \<le> pow2 ?b * \<bar>x\<bar>" using yhi x by (simp add: field_simps)
      then show ?thesis using pow2_pos[of ?b] by (simp add: pow2_minus field_simps)
    qed
    have B: "\<bar>x\<bar> < pow2 (- ?b + 1)"
    proof -
      have "pow2 (?b - 1) * \<bar>x\<bar> < 1" using ylo x by (simp add: field_simps)
      then have "\<bar>x\<bar> < 1 / pow2 (?b - 1)"
        using pow2_pos[of "?b - 1"] by (simp add: pos_less_divide_eq mult.commute)
      also have "\<dots> = pow2 (- (?b - 1))" by (simp only: pow2_minus)
      finally show ?thesis by simp
    qed
    show ?thesis using A B by (simp add: e)
  qed
  then show "pow2 (expo x) \<le> \<bar>x\<bar>" "\<bar>x\<bar> < pow2 (expo x + 1)" by simp_all
qed

lemma expo_eqI:
  assumes "pow2 e \<le> \<bar>x\<bar>" "\<bar>x\<bar> < pow2 (e + 1)"
  shows "expo x = e"
proof -
  have "x \<noteq> 0" using assms(1) pow2_pos[of e] by auto
  note b = expo_bounds[OF this]
  have "pow2 e < pow2 (expo x + 1)" using assms(1) b(2) by linarith
  then have "e < expo x + 1" by (rule pow2_less)
  moreover have "pow2 (expo x) < pow2 (e + 1)" using assms(2) b(1) by linarith
  then have "expo x < e + 1" by (rule pow2_less)
  ultimately show ?thesis by linarith
qed

lemma expo_mono:
  assumes "0 < x" "x \<le> y"
  shows "expo x \<le> expo y"
proof -
  have "pow2 (expo x) \<le> \<bar>x\<bar>" using expo_bounds(1)[of x] assms by simp
  moreover have "\<bar>y\<bar> < pow2 (expo y + 1)" using expo_bounds(2)[of y] assms by simp
  ultimately have "pow2 (expo x) < pow2 (expo y + 1)" using assms by linarith
  then have "expo x < expo y + 1" by (rule pow2_less)
  then show ?thesis by simp
qed

lemma rne_cases: "rne x = \<lfloor>x\<rfloor> \<or> rne x = \<lfloor>x\<rfloor> + 1"
  unfolding rne_def Let_def by auto

lemma rne_mono:
  assumes "x \<le> y"
  shows "rne x \<le> rne y"
proof (cases "\<lfloor>x\<rfloor> = \<lfloor>y\<rfloor>")
  case True
  then show ?thesis using assms unfolding rne_def Let_def by auto
next
  case False
  then have "\<lfloor>x\<rfloor> + 1 \<le> \<lfloor>y\<rfloor>" using floor_mono[OF assms] by linarith
  then show ?thesis using rne_cases[of x] rne_cases[of y] by linarith
qed

lemma rne_int: "rne (of_int k) = k"
  by (simp add: rne_def)

lemma rne_minus: "rne (- x) = - rne x"
proof (cases "x \<in> \<int>")
  case True
  then obtain k where "x = of_int k" by (auto elim: Ints_cases)
  then show ?thesis using rne_int[of k] rne_int[of "- k"] by simp
next
  case False
  then have "x \<noteq> of_int \<lfloor>x\<rfloor>" by (metis Ints_of_int)
  then have f: "\<lfloor>- x\<rfloor> = - \<lfloor>x\<rfloor> - 1"
    by (simp add: floor_minus ceiling_altdef)
  show ?thesis unfolding rne_def Let_def f by auto
qed

lemma ulp_pos: "0 < ulp x"
  by (simp add: ulp_def pow2_pos)

lemma ulp_minus: "ulp (- x) = ulp x"
  by (simp add: ulp_def expo_def)

lemma fl_minus: "fl (- x) = - fl x"
  by (simp add: fl_def ulp_minus rne_minus)

lemma fl_nonneg: "0 \<le> x \<Longrightarrow> 0 \<le> fl x"
proof -
  assume "0 \<le> x"
  then have "0 \<le> x / ulp x" using ulp_pos[of x] by simp
  then have "rne 0 \<le> rne (x / ulp x)" by (rule rne_mono)
  then have "0 \<le> rne (x / ulp x)" using rne_int[of 0] by simp
  then show ?thesis using ulp_pos[of x] by (simp add: fl_def)
qed

lemma fl_mono_pos:
  assumes "0 < x" "x \<le> y"
  shows "fl x \<le> fl y"
proof -
  let ?ex = "max (expo x) (- 1022)" and ?ey = "max (expo y) (- 1022)"
  have y: "0 < y" using assms by simp
  have le: "?ex \<le> ?ey" using expo_mono[OF assms] by simp
  show ?thesis
  proof (cases "?ex = ?ey")
    case True
    then have u: "ulp x = ulp y" by (simp add: ulp_def)
    have "x / ulp y \<le> y / ulp y" using assms ulp_pos[of y] by (simp add: divide_right_mono)
    then have "rne (x / ulp y) \<le> rne (y / ulp y)" by (rule rne_mono)
    then have "of_int (rne (x / ulp y)) * ulp y \<le> of_int (rne (y / ulp y)) * ulp y"
      using ulp_pos[of y] by (simp add: mult_right_mono)
    then show ?thesis using assms y by (simp add: fl_def u)
  next
    case False
    then have lt: "?ex < ?ey" using le by linarith
    then have ey: "?ey = expo y" by linarith
    have "\<bar>x\<bar> < pow2 (expo x + 1)" using expo_bounds(2)[of x] assms by simp
    also have "\<dots> \<le> pow2 (?ex + 1)" by (rule pow2_mono) simp
    finally have "x < pow2 (?ex + 1)" by simp
    then have "x / ulp x < pow2 (?ex + 1) / ulp x"
      using ulp_pos[of x] by (simp add: divide_strict_right_mono)
    also have "pow2 (?ex + 1) / ulp x = pow2 53"
    proof -
      have "pow2 (?ex + 1) = pow2 53 * pow2 (?ex - 52)"
        by (rule pow2_split53)
      then show ?thesis using pow2_pos[of "?ex - 52"] by (simp add: ulp_def)
    qed
    finally have "x / ulp x \<le> of_int (2 ^ 53)" by (simp add: pow2_def)
    then have "rne (x / ulp x) \<le> rne (of_int (2 ^ 53))" by (rule rne_mono)
    then have "of_int (rne (x / ulp x)) \<le> pow2 53"
      unfolding rne_int by (simp add: pow2_def)
    then have "fl x \<le> pow2 53 * ulp x"
      using assms ulp_pos[of x] by (simp add: fl_def mult_right_mono)
    also have "\<dots> = pow2 (?ex + 1)" by (simp add: ulp_def pow2_split53[symmetric])
    also have "\<dots> \<le> pow2 ?ey" using lt by (intro pow2_mono) linarith
    finally have A: "fl x \<le> pow2 ?ey" .
    have "pow2 ?ey \<le> y" using expo_bounds(1)[of y] y ey by simp
    then have "pow2 ?ey / ulp y \<le> y / ulp y"
      using ulp_pos[of y] by (simp add: divide_right_mono)
    moreover have "pow2 ?ey / ulp y = of_int (2 ^ 52)"
    proof -
      have "pow2 ?ey = pow2 52 * pow2 (?ey - 52)"
        by (rule pow2_split52)
      then show ?thesis using pow2_pos[of "?ey - 52"] by (simp add: ulp_def pow2_def)
    qed
    ultimately have "of_int (2 ^ 52) \<le> y / ulp y" by simp
    then have "rne (of_int (2 ^ 52)) \<le> rne (y / ulp y)" by (rule rne_mono)
    then have "pow2 52 \<le> of_int (rne (y / ulp y))"
      unfolding rne_int by (simp add: pow2_def)
    then have "pow2 52 * ulp y \<le> fl y"
      using y ulp_pos[of y] by (simp add: fl_def mult_right_mono)
    moreover have "pow2 52 * ulp y = pow2 ?ey" by (simp add: ulp_def pow2_split52[symmetric])
    ultimately show ?thesis using A by linarith
  qed
qed

lemma fl_mono:
  assumes "x \<le> y"
  shows "fl x \<le> fl y"
proof -
  consider "0 < x" | "x \<le> 0" "0 \<le> y" | "y < 0" by linarith
  then show ?thesis
  proof cases
    case 1
    then show ?thesis using assms by (rule fl_mono_pos)
  next
    case 2
    then have "fl x \<le> 0" using fl_nonneg[of "- x"] by (simp add: fl_minus)
    then show ?thesis using fl_nonneg[OF 2(2)] by linarith
  next
    case 3
    then have "fl (- y) \<le> fl (- x)" using assms by (intro fl_mono_pos) simp_all
    then show ?thesis by (simp add: fl_minus)
  qed
qed

lemma fl_eval:
  assumes "pow2 e \<le> \<bar>x\<bar>" "\<bar>x\<bar> < pow2 (e + 1)" "- 1022 \<le> e"
  shows "fl x = of_int (rne (x / pow2 (e - 52))) * pow2 (e - 52)"
proof -
  have "expo x = e" using assms(1,2) by (rule expo_eqI)
  moreover have "x \<noteq> 0" using assms(1) pow2_pos[of e] by auto
  ultimately show ?thesis using assms(3) by (simp add: fl_def ulp_def max_def)
qed


lemma fl_0: "fl 0 = 0"
  by (simp add: fl_def)

text \<open>The two decimal literals, and the values at the ends of the price band.\<close>

lemma c003: "fl (3/100) = 1080863910568919 / 2 ^ 55"
  by (subst fl_eval[where e = "-6"]) (simp_all add: pow2_def rne_def Let_def)

lemma c006: "fl (6/100) = 1080863910568919 / 2 ^ 54"
  by (subst fl_eval[where e = "-5"]) (simp_all add: pow2_def rne_def Let_def)

lemma fl_c003: "fl (1080863910568919 / 2 ^ 55) = 1080863910568919 / 2 ^ 55"
  by (subst fl_eval[where e = "-6"]) (simp_all add: pow2_def rne_def Let_def)

lemma fl_c006: "fl (1080863910568919 / 2 ^ 54) = 1080863910568919 / 2 ^ 54"
  by (subst fl_eval[where e = "-5"]) (simp_all add: pow2_def rne_def Let_def)

lemma fl_lo1: "fl (1 - 1080863910568919 / 2 ^ 55) = 4368491638549381 / 2 ^ 52"
  by (subst fl_eval[where e = "-1"]) (simp_all add: pow2_def rne_def Let_def)

lemma fl_hi1: "fl (1 + 1080863910568919 / 2 ^ 55) = 4638707616191611 / 2 ^ 52"
  by (subst fl_eval[where e = "0"]) (simp_all add: pow2_def rne_def Let_def)

lemma fl_lo: "fl (100 * (4368491638549381 / 2 ^ 52)) = 97"
  by (subst fl_eval[where e = "6"]) (simp_all add: pow2_def rne_def Let_def)

lemma fl_hi: "fl (100 * (4638707616191611 / 2 ^ 52)) = 103"
  by (subst fl_eval[where e = "6"]) (simp_all add: pow2_def rne_def Let_def)

section \<open>The price expression\<close>

lemma price_offset:
  assumes "0 \<le> rnd" "rnd < 1"
  shows "- (3/100) \<le> fsub (fmul rnd (fl (6/100))) (fl (3/100))"
    and "fsub (fmul rnd (fl (6/100))) (fl (3/100)) \<le> 3/100"
    and "- fl (3/100) \<le> fsub (fmul rnd (fl (6/100))) (fl (3/100))"
    and "fsub (fmul rnd (fl (6/100))) (fl (3/100)) \<le> fl (3/100)"
proof -
  let ?a = "fmul rnd (fl (6/100))"
  have "fl 0 \<le> ?a" unfolding fmul_def c006 using assms by (intro fl_mono) simp
  then have a0: "0 \<le> ?a" by (simp add: fl_0)
  have "?a \<le> fl (1080863910568919 / 2 ^ 54)"
    unfolding fmul_def c006 using assms by (intro fl_mono) simp
  then have a1: "?a \<le> 1080863910568919 / 2 ^ 54" by (simp only: fl_c006)
  have "fl (- (1080863910568919 / 2 ^ 55)) \<le> fsub ?a (fl (3/100))"
    unfolding fsub_def c003 using a0 by (intro fl_mono) simp
  then show l: "- fl (3/100) \<le> fsub ?a (fl (3/100))"
    by (simp only: fl_minus fl_c003 c003)
  have "fsub ?a (fl (3/100)) \<le> fl (1080863910568919 / 2 ^ 55)"
    unfolding fsub_def c003 using a1 by (intro fl_mono) simp
  then show u: "fsub ?a (fl (3/100)) \<le> fl (3/100)"
    by (simp only: fl_c003 c003)
  show "- (3/100) \<le> fsub ?a (fl (3/100))" using l unfolding c003 by simp
  show "fsub ?a (fl (3/100)) \<le> 3/100" using u unfolding c003 by simp
qed

lemma price_scaled:
  assumes "- fl (3/100) \<le> u" "u \<le> fl (3/100)"
  shows "97 \<le> fmul 100 (fadd 1 u)" "fmul 100 (fadd 1 u) \<le> 103"
proof -
  have "fl (1 - 1080863910568919 / 2 ^ 55) \<le> fadd 1 u"
    unfolding fadd_def using assms(1) unfolding c003 by (intro fl_mono) simp
  then have v0: "4368491638549381 / 2 ^ 52 \<le> fadd 1 u" by (simp only: fl_lo1)
  have "fadd 1 u \<le> fl (1 + 1080863910568919 / 2 ^ 55)"
    unfolding fadd_def using assms(2) unfolding c003 by (intro fl_mono) simp
  then have v1: "fadd 1 u \<le> 4638707616191611 / 2 ^ 52" by (simp only: fl_hi1)
  have "fl (100 * (4368491638549381 / 2 ^ 52)) \<le> fmul 100 (fadd 1 u)"
    unfolding fmul_def using v0 by (intro fl_mono) simp
  then show "97 \<le> fmul 100 (fadd 1 u)" by (simp only: fl_lo)
  have "fmul 100 (fadd 1 u) \<le> fl (100 * (4638707616191611 / 2 ^ 52))"
    unfolding fmul_def using v1 by (intro fl_mono) simp
  then show "fmul 100 (fadd 1 u) \<le> 103" by (simp only: fl_hi)
qed

lemma price_at_0: "fmul 100 (fadd 1 (fsub (fmul 0 (fl (6/100))) (fl (3/100)))) = 97"
proof -
  have "fmul 0 (fl (6/100)) = 0" by (simp add: fmul_def fl_0)
  moreover have "fsub 0 (fl (3/100)) = - (1080863910568919 / 2 ^ 55)"
    unfolding fsub_def c003 using fl_minus[of "1080863910568919 / 2 ^ 55"] fl_c003 by simp
  moreover have "fadd 1 (- (1080863910568919 / 2 ^ 55)) = 4368491638549381 / 2 ^ 52"
    unfolding fadd_def using fl_lo1 by simp
  moreover have "fmul 100 (4368491638549381 / 2 ^ 52) = 97"
    unfolding fmul_def by (rule fl_lo)
  ultimately show ?thesis by (simp only:)
qed

lemma price_at_half: "fmul 100 (fadd 1 (fsub (fmul (1/2) (fl (6/100))) (fl (3/100)))) = 100"
proof -
  have "fmul (1/2) (fl (6/100)) = 1080863910568919 / 2 ^ 55"
    unfolding fmul_def c006 using fl_c003 by simp
  moreover have "fsub (1080863910568919 / 2 ^ 55) (fl (3/100)) = 0"
    unfolding fsub_def c003 by (simp add: fl_0)
  moreover have "fadd 1 0 = 1"
    unfolding fadd_def by (subst fl_eval[where e = "0"]) (simp_all add: pow2_def rne_def Let_def)
  moreover have "fmul 100 1 = 100"
    unfolding fmul_def by (subst fl_eval[where e = "6"]) (simp_all add: pow2_def rne_def Let_def)
  ultimately show ?thesis by (simp only:)
qed

lemma quote_at_0 [simp]:
  "getRaydiumQuote 0 tIn tOut amt = 97" "getMeteoraQuote 0 tIn tOut amt = 97"
  "executedPrice (executeSwap uuid 0 dex order) = 97"
  by (simp_all only: getRaydiumQuote_def getMeteoraQuote_def executeSwap_def Let_def price_at_0
      SwapResult.simps)

lemma quote_at_half [simp]:
  "getRaydiumQuote (1/2) tIn tOut amt = 100" "getMeteoraQuote (1/2) tIn tOut amt = 100"
  by (simp_all only: getRaydiumQuote_def getMeteoraQuote_def Let_def price_at_half)

text \<open>
  C6. Every price of the quote simulator lies in \<open>[97, 103]\<close>: for every value \<open>rnd\<close> of
  \<^verbatim>\<open>Math.random()\<close>, both quotes and the executed price are \<open>100 * (1 + u)\<close> in binary64
  arithmetic for an offset \<open>u\<close> with \<open>-0.03 \<le> u \<le> 0.03\<close>, and also in exact arithmetic for
  such an offset \<open>v\<close>. The executed price is determined by the draw of its own call
  alone: \<^verbatim>\<open>executeSwap\<close> takes no quoted price, and neither the venue, the order nor the
  UUID changes the price.
\<close>

theorem C6_price_band:
  assumes "0 \<le> rnd" "rnd < 1"
  shows "97 \<le> getRaydiumQuote rnd tIn tOut amt \<and> getRaydiumQuote rnd tIn tOut amt \<le> 103 \<and>
         97 \<le> getMeteoraQuote rnd tIn tOut amt \<and> getMeteoraQuote rnd tIn tOut amt \<le> 103 \<and>
         97 \<le> executedPrice (executeSwap uuid rnd dex order) \<and>
         executedPrice (executeSwap uuid rnd dex order) \<le> 103 \<and>
         (\<exists>u. - (3/100) \<le> u \<and> u \<le> 3/100 \<and>
              getRaydiumQuote rnd tIn tOut amt = fmul 100 (fadd 1 u) \<and>
              getMeteoraQuote rnd tIn tOut amt = fmul 100 (fadd 1 u) \<and>
              executedPrice (executeSwap uuid rnd dex order) = fmul 100 (fadd 1 u)) \<and>
         (\<exists>v. - (3/100) \<le> v \<and> v \<le> 3/100 \<and>
              getRaydiumQuote rnd tIn tOut amt = 100 * (1 + v) \<and>
              getMeteoraQuote rnd tIn tOut amt = 100 * (1 + v) \<and>
              executedPrice (executeSwap uuid rnd dex order) = 100 * (1 + v)) \<and>
         executedPrice (executeSwap uuid rnd dex order) =
           executedPrice (executeSwap uuid' rnd dex' order')"
proof -
  let ?u = "fsub (fmul rnd (fl (6/100))) (fl (3/100))"
  let ?p = "fmul 100 (fadd 1 ?u)"
  have eqs: "getRaydiumQuote rnd tIn tOut amt = ?p" "getMeteoraQuote rnd tIn tOut amt = ?p"
    "executedPrice (executeSwap uuid rnd dex order) = ?p"
    "executedPrice (executeSwap uuid' rnd dex' order') = ?p"
    by (simp_all add: getRaydiumQuote_def getMeteoraQuote_def executeSwap_def)
  have lo: "97 \<le> ?p" and hi: "?p \<le> 103"
    using price_scaled[OF price_offset(3,4)[OF assms]] by simp_all
  have float: "\<exists>u. - (3/100) \<le> u \<and> u \<le> 3/100 \<and> ?p = fmul 100 (fadd 1 u)"
    using price_offset(1,2)[OF assms] by blast
  have "- (3/100) \<le> ?p / 100 - 1 \<and> ?p / 100 - 1 \<le> 3/100 \<and> ?p = 100 * (1 + (?p / 100 - 1))"
    using lo hi by simp
  then have exact: "\<exists>v. - (3/100) \<le> v \<and> v \<le> 3/100 \<and> ?p = 100 * (1 + v)"
    by blast
  show ?thesis unfolding eqs using lo hi float exact by simp
qed

theorem C6_price_band_witness:
  "(0::real) \<le> 0 \<and> (0::real) < 1 \<and>
   97 \<le> getRaydiumQuote 0 ''SOL'' ''USDC'' (3/2) \<and> getRaydiumQuote 0 ''SOL'' ''USDC'' (3/2) \<le> 103 \<and>
   97 \<le> getMeteoraQuote 0 ''SOL'' ''USDC'' (3/2) \<and> getMeteoraQuote 0 ''SOL'' ''USDC'' (3/2) \<le> 103 \<and>
   97 \<le> executedPrice (executeSwap swap_uuid 0 ''raydium'' demo_order) \<and>
   executedPrice (executeSwap swap_uuid 0 ''raydium'' demo_order) \<le> 103 \<and>
   getRaydiumQuote 0 ''SOL'' ''USDC'' (3/2) = 97"
  using C6_price_band[of 0 "''SOL''" "''USDC''" "3/2" swap_uuid "''raydium''" demo_order
      swap_uuid "''raydium''" demo_order]
  by simp

section \<open>The transaction hash\<close>






section \<open>The worker, step by step\<close>

lemma writes_append [simp]: "writes (xs @ ys) = writes xs @ writes ys"
  by (induction xs rule: writes.induct) auto

lemma pushed_append [simp]: "pushed (xs @ ys) = pushed xs @ pushed ys"
  by (induction xs rule: pushed.induct) auto

lemma writes_pushes [simp]: "writes (pushes w i m) = []"
  by (simp add: pushes_def split: option.splits)

lemma pushes_simps [simp]:
  "pushes (w\<lparr> orderStore := x \<rparr>) = pushes w"
  "pushes (w\<lparr> trace := t \<rparr>) = pushes w"
  by (simp_all add: pushes_def fun_eq_iff)

lemma send_fault_simps [simp]:
  "send_fault env (w\<lparr> orderStore := x \<rparr>) = send_fault env w"
  "send_fault env (w\<lparr> trace := t \<rparr>) = send_fault env w"
  by (simp_all add: send_fault_def fun_eq_iff)

lemma andThen_eq:
  "andThen p k = (case fst p of Inl f \<Rightarrow> (Inl f, snd p) | Inr a \<Rightarrow> k a (snd p))"
  by (cases p; cases "fst p") auto

lemma updateStatus_eq:
  "updateStatus env st add (order, w) =
     (case send_fault env w (id' order) st of None \<Rightarrow> Inr () | Some f \<Rightarrow> Inl f,
      order\<lparr> status := st, updatedAt := now env st \<rparr>,
      w\<lparr> orderStore := (orderStore w)(id' order \<mapsto> order\<lparr> status := st, updatedAt := now env st \<rparr>),
         trace := trace w @ StoreSet (order\<lparr> status := st, updatedAt := now env st \<rparr>)
                    # pushes w (id' order)
                        (JSON_stringify (js_spread [(''status'', Some (JString (status_name st))),
                                      (''orderId'', Some (JString (id' order)))] add)) \<rparr>)"
  by (simp add: updateStatus_def orderStore_set_def socket_send_def pushes_def send_fault_def Let_def
      split: option.splits)

lemma worker_catch_eq:
  "worker_catch env e (order, w) =
     (Inl (case send_fault env w (id' order) failed of None \<Rightarrow> e | Some f \<Rightarrow> f),
      w\<lparr> orderStore := (orderStore w)(id' order \<mapsto>
              order\<lparr> status := failed, error := Some (fault_message e), updatedAt := now env failed \<rparr>),
         trace := trace w @ StoreSet (order\<lparr> status := failed, error := Some (fault_message e),
                                            updatedAt := now env failed \<rparr>)
                    # pushes w (id' order)
                        [(''status'', JString ''failed''), (''orderId'', JString (id' order)),
                         (''error'', JString (fault_message e))] \<rparr>)"
  by (simp add: worker_catch_def orderStore_set_def socket_send_def pushes_def send_fault_def Let_def
      split: option.splits)

lemmas try_unfold = worker_try_def andThen_eq updateStatus_eq await_def log_info_def Let_def

lemma worker_try_success:
  assumes "worker_try env (order, w) = (Inr u, order', w')"
  shows "\<exists>qA qB r.
      quotes env (order\<lparr> status := routing, updatedAt := now env routing \<rparr>) = Inr (qA, qB) \<and>
      swap env (bestDex qA qB) (order\<lparr> status := submitted, updatedAt := now env submitted \<rparr>) = Inr r \<and>
      (\<forall>st \<in> {routing, building, submitted, confirmed}. send_fault env w (id' order) st = None) \<and>
      order' = order\<lparr> status := confirmed, txHash := Some (res_txHash r), updatedAt := now env confirmed \<rparr> \<and>
      w' = w\<lparr> orderStore := (orderStore w)(id' order \<mapsto> order'),
              trace := trace w @
                [StoreSet (order\<lparr> status := routing, updatedAt := now env routing \<rparr>)] @
                pushes w (id' order) [(''status'', JString ''routing''), (''orderId'', JString (id' order))] @
                [LogInfo (''Routing order '' @ id' order @ '' to '' @ bestDex qA qB)] @
                [StoreSet (order\<lparr> status := building, updatedAt := now env building \<rparr>)] @
                pushes w (id' order) [(''status'', JString ''building''), (''orderId'', JString (id' order))] @
                [StoreSet (order\<lparr> status := submitted, updatedAt := now env submitted \<rparr>)] @
                pushes w (id' order) [(''status'', JString ''submitted''), (''orderId'', JString (id' order))] @
                [StoreSet order'] @
                pushes w (id' order) [(''status'', JString ''confirmed''), (''orderId'', JString (id' order)),
                   (''txHash'', JString (res_txHash r)), (''executedPrice'', JNumber (executedPrice r))] \<rparr>"
  using assms
  by (auto simp: try_unfold split: sum.splits option.splits prod.splits)

lemma worker_Inr_iff:
  "worker env order w = (Inr res, w') \<longleftrightarrow>
     (\<exists>order'. worker_try env (order, w) = (Inr (), order', w') \<and>
        res = \<lparr> success = True, result_order = order' \<rparr>)"
  by (auto simp: worker_def worker_catch_eq split: prod.splits sum.splits)

lemma worker_completes:
  assumes "quotes env (order\<lparr> status := routing, updatedAt := now env routing \<rparr>) = Inr (qA, qB)"
    and "swap env (bestDex qA qB) (order\<lparr> status := submitted, updatedAt := now env submitted \<rparr>) = Inr r"
    and "\<And>st. send_fault env w (id' order) st = None"
  shows "\<exists>res w'. worker env order w = (Inr res, w')"
  using assms by (simp add: worker_def try_unfold)

text \<open>
  C1. Every invocation of the handler that returns has received both quotes and the
  result \<open>r\<close> of the venue execution, and its history is: the order is written to the
  store with status \<open>routing\<close>, then \<open>building\<close>, then \<open>submitted\<close>, then \<open>confirmed\<close>,
  each time with \<open>updatedAt\<close> set to the time of that transition, and each write is
  followed by the notification \<open>{status, orderId}\<close> on the socket bound to the order
  (none when no socket is bound); the notification of \<open>confirmed\<close> also carries the
  \<open>txHash\<close> and the \<open>executedPrice\<close> of \<open>r\<close>. The store ends with the confirmed order.
\<close>

theorem C1_success_path:
  assumes "worker env order w = (Inr res, w')"
  shows "\<exists>qA qB r.
      quotes env (order\<lparr> status := routing, updatedAt := now env routing \<rparr>) = Inr (qA, qB) \<and>
      swap env (bestDex qA qB) (order\<lparr> status := submitted, updatedAt := now env submitted \<rparr>) = Inr r \<and>
      (let o1 = order\<lparr> status := routing, updatedAt := now env routing \<rparr>;
           o2 = order\<lparr> status := building, updatedAt := now env building \<rparr>;
           o3 = order\<lparr> status := submitted, updatedAt := now env submitted \<rparr>;
           o4 = order\<lparr> status := confirmed, txHash := Some (res_txHash r),
                       updatedAt := now env confirmed \<rparr>
       in trace w' = trace w @
            [StoreSet o1] @
            pushes w (id' order) [(''status'', JString ''routing''), (''orderId'', JString (id' order))] @
            [LogInfo (''Routing order '' @ id' order @ '' to '' @ bestDex qA qB)] @
            [StoreSet o2] @
            pushes w (id' order) [(''status'', JString ''building''), (''orderId'', JString (id' order))] @
            [StoreSet o3] @
            pushes w (id' order) [(''status'', JString ''submitted''), (''orderId'', JString (id' order))] @
            [StoreSet o4] @
            pushes w (id' order) [(''status'', JString ''confirmed''), (''orderId'', JString (id' order)),
               (''txHash'', JString (res_txHash r)), (''executedPrice'', JNumber (executedPrice r))] \<and>
          map status (writes (drop (length (trace w)) (trace w'))) =
            [routing, building, submitted, confirmed] \<and>
          map updatedAt (writes (drop (length (trace w)) (trace w'))) =
            [now env routing, now env building, now env submitted, now env confirmed] \<and>
          orderStore w' = (orderStore w)(id' order \<mapsto> o4) \<and>
          connections w' = connections w \<and>
          res = \<lparr> success = True, result_order = o4 \<rparr>)"
proof -
  from assms obtain order' where t: "worker_try env (order, w) = (Inr (), order', w')"
    and r: "res = \<lparr> success = True, result_order = order' \<rparr>"
    unfolding worker_Inr_iff by blast
  from worker_try_success[OF t] obtain qA qB r where f:
    "quotes env (order\<lparr> status := routing, updatedAt := now env routing \<rparr>) = Inr (qA, qB)"
    "swap env (bestDex qA qB) (order\<lparr> status := submitted, updatedAt := now env submitted \<rparr>) = Inr r"
    "order' = order\<lparr> status := confirmed, txHash := Some (res_txHash r), updatedAt := now env confirmed \<rparr>"
    "w' = w\<lparr> orderStore := (orderStore w)(id' order \<mapsto> order'),
              trace := trace w @
                [StoreSet (order\<lparr> status := routing, updatedAt := now env routing \<rparr>)] @
                pushes w (id' order) [(''status'', JString ''routing''), (''orderId'', JString (id' order))] @
                [LogInfo (''Routing order '' @ id' order @ '' to '' @ bestDex qA qB)] @
                [StoreSet (order\<lparr> status := building, updatedAt := now env building \<rparr>)] @
                pushes w (id' order) [(''status'', JString ''building''), (''orderId'', JString (id' order))] @
                [StoreSet (order\<lparr> status := submitted, updatedAt := now env submitted \<rparr>)] @
                pushes w (id' order) [(''status'', JString ''submitted''), (''orderId'', JString (id' order))] @
                [StoreSet order'] @
                pushes w (id' order) [(''status'', JString ''confirmed''), (''orderId'', JString (id' order)),
                   (''txHash'', JString (res_txHash r)), (''executedPrice'', JNumber (executedPrice r))] \<rparr>"
    by blast
  show ?thesis
    apply (rule exI[of _ qA], rule exI[of _ qB], rule exI[of _ r])
    using f r by (simp add: Let_def)
qed

lemma demo_world_eq:
  "demo_world =
     \<lparr> orderStore = [demo_id \<mapsto> demo_order], connections = Map.empty,
       orderQueue = [\<lparr> job_name = ''execute_order'', job_data = demo_order,
                       job_opts = \<lparr> attempts = 3, backoff_type = ''exponential'', backoff_delay = 1000 \<rparr> \<rparr>],
       trace = [StoreSet demo_order], delivery = (\<lambda>socket. None) \<rparr>"
  by (simp add: demo_world_def submit_order_def orderStore_set_def orderQueue_add_def world_init_def
      demo_order_def demo_request_def Let_def)

lemma demo_world_connected_eq:
  "demo_world_connected =
     demo_world\<lparr> connections := [demo_id \<mapsto> 7],
                 trace := [StoreSet demo_order, WsSend 7 (snapshot demo_order)] \<rparr>"
  by (simp add: demo_world_connected_def ws_connect_def socket_send_def demo_world_eq Let_def)

lemma demo_connections [simp]:
  "connections demo_world = Map.empty"
  "connections demo_world_connected = [demo_id \<mapsto> 7]"
  "id' demo_order = demo_id"
  "trace demo_world = [StoreSet demo_order]"
  "trace demo_world_connected = [StoreSet demo_order, WsSend 7 (snapshot demo_order)]"
  by (simp_all add: demo_world_connected_eq demo_world_eq demo_order_def)

lemma env_ok_simps [simp]:
  "now (env_ok a b) = demo_clock"
  "send_result (env_ok a b) = (\<lambda>st. None)"
  "quotes (env_ok a b) order =
     Inr (getRaydiumQuote a (tokenIn order) (tokenOut order) (amount order),
          getMeteoraQuote b (tokenIn order) (tokenOut order) (amount order))"
  "swap (env_ok a b) dex order = Inr (executeSwap swap_uuid 0 dex order)"
  by (simp_all add: env_ok_def mock_env_def)

lemma res_txHash_executeSwap [simp]:
  "res_txHash (executeSwap uuid rnd dex order) = dex @ ''_'' @ uuid"
  by (simp add: executeSwap_def)

lemma send_fault_env_ok [simp]: "send_fault (env_ok a b) w i st = None"
  by (simp add: send_fault_def split: option.splits)

theorem C1_success_path_witness:
  "\<exists>res w'. worker (env_ok 0 0) demo_order demo_world_connected = (Inr res, w') \<and>
     map status (writes (drop 2 (trace w'))) = [routing, building, submitted, confirmed] \<and>
     map updatedAt (writes (drop 2 (trace w'))) = [2000, 2201, 2202, 4700] \<and>
     pushed (drop 2 (trace w')) =
       [(7, [(''status'', JString ''routing''), (''orderId'', JString demo_id)]),
        (7, [(''status'', JString ''building''), (''orderId'', JString demo_id)]),
        (7, [(''status'', JString ''submitted''), (''orderId'', JString demo_id)]),
        (7, [(''status'', JString ''confirmed''), (''orderId'', JString demo_id),
             (''txHash'', JString (''raydium_'' @ swap_uuid)), (''executedPrice'', JNumber 97)])] \<and>
     map_option status (orderStore w' demo_id) = Some confirmed \<and>
     txHash (result_order res) = Some (''raydium_'' @ swap_uuid)"
proof -
  obtain res w' where run: "worker (env_ok 0 0) demo_order demo_world_connected = (Inr res, w')"
    using worker_completes[of "env_ok 0 0" demo_order 97 97 "executeSwap swap_uuid 0 (bestDex 97 97)
        (demo_order\<lparr> status := submitted, updatedAt := 2202 \<rparr>)" demo_world_connected]
    by auto
  from C1_success_path[OF run] obtain qA qB r where
    q: "quotes (env_ok 0 0) (demo_order\<lparr> status := routing, updatedAt := now (env_ok 0 0) routing \<rparr>)
          = Inr (qA, qB)"
    and s: "swap (env_ok 0 0) (bestDex qA qB)
          (demo_order\<lparr> status := submitted, updatedAt := now (env_ok 0 0) submitted \<rparr>) = Inr r"
    and rest: "(let o1 = demo_order\<lparr> status := routing, updatedAt := now (env_ok 0 0) routing \<rparr>;
           o2 = demo_order\<lparr> status := building, updatedAt := now (env_ok 0 0) building \<rparr>;
           o3 = demo_order\<lparr> status := submitted, updatedAt := now (env_ok 0 0) submitted \<rparr>;
           o4 = demo_order\<lparr> status := confirmed, txHash := Some (res_txHash r),
                       updatedAt := now (env_ok 0 0) confirmed \<rparr>
       in trace w' = trace demo_world_connected @
            [StoreSet o1] @
            pushes demo_world_connected (id' demo_order) [(''status'', JString ''routing''), (''orderId'', JString (id' demo_order))] @
            [LogInfo (''Routing order '' @ id' demo_order @ '' to '' @ bestDex qA qB)] @
            [StoreSet o2] @
            pushes demo_world_connected (id' demo_order) [(''status'', JString ''building''), (''orderId'', JString (id' demo_order))] @
            [StoreSet o3] @
            pushes demo_world_connected (id' demo_order) [(''status'', JString ''submitted''), (''orderId'', JString (id' demo_order))] @
            [StoreSet o4] @
            pushes demo_world_connected (id' demo_order) [(''status'', JString ''confirmed''), (''orderId'', JString (id' demo_order)),
               (''txHash'', JString (res_txHash r)), (''executedPrice'', JNumber (executedPrice r))] \<and>
          map status (writes (drop (length (trace demo_world_connected)) (trace w'))) =
            [routing, building, submitted, confirmed] \<and>
          map updatedAt (writes (drop (length (trace demo_world_connected)) (trace w'))) =
            [now (env_ok 0 0) routing, now (env_ok 0 0) building, now (env_ok 0 0) submitted, now (env_ok 0 0) confirmed] \<and>
          orderStore w' = (orderStore demo_world_connected)(id' demo_order \<mapsto> o4) \<and>
          connections w' = connections demo_world_connected \<and>
          res = \<lparr> success = True, result_order = o4 \<rparr>)"
    by blast
  from q have qs: "qA = 97" "qB = 97" by simp_all
  from s qs have r: "r = executeSwap swap_uuid 0 ''raydium''
      (demo_order\<lparr> status := submitted, updatedAt := 2202 \<rparr>)"
    by (simp add: bestDex_def)
  show ?thesis
    apply (rule exI[of _ res], rule exI[of _ w'])
    using run rest unfolding qs r
    by (simp add: Let_def pushes_def bestDex_def)
qed

section \<open>Venue selection\<close>

lemma mock_env_simps [simp]:
  "now (mock_env clock sends a b x uuid) = clock"
  "send_result (mock_env clock sends a b x uuid) = sends"
  "quotes (mock_env clock sends a b x uuid) order =
     Inr (getRaydiumQuote a (tokenIn order) (tokenOut order) (amount order),
          getMeteoraQuote b (tokenIn order) (tokenOut order) (amount order))"
  "swap (mock_env clock sends a b x uuid) dex order = Inr (executeSwap uuid x dex order)"
  by (simp_all add: mock_env_def)

lemma LogInfo_pushes [simp]: "LogInfo l \<notin> set (pushes w i m)"
  by (simp add: pushes_def split: option.splits)

lemma send_fault_swap [simp]: "send_fault (env\<lparr> swap := x \<rparr>) = send_fault env"
  by (simp add: send_fault_def fun_eq_iff split: option.splits)

lemma run_cases [case_names routing_throws quotes_throw building_throws submitted_throws
    swap_throws confirmed_throws returns]:
  fixes env :: worker_env and order :: Order and w :: world
  obtains
    f where "send_fault env w (id' order) routing = Some f"
  | f where "send_fault env w (id' order) routing = None"
      "quotes env (order\<lparr> status := routing, updatedAt := now env routing \<rparr>) = Inl f"
  | qA qB f where "send_fault env w (id' order) routing = None"
      "quotes env (order\<lparr> status := routing, updatedAt := now env routing \<rparr>) = Inr (qA, qB)"
      "send_fault env w (id' order) building = Some f"
  | qA qB f where "send_fault env w (id' order) routing = None"
      "quotes env (order\<lparr> status := routing, updatedAt := now env routing \<rparr>) = Inr (qA, qB)"
      "send_fault env w (id' order) building = None"
      "send_fault env w (id' order) submitted = Some f"
  | qA qB f where "send_fault env w (id' order) routing = None"
      "quotes env (order\<lparr> status := routing, updatedAt := now env routing \<rparr>) = Inr (qA, qB)"
      "send_fault env w (id' order) building = None"
      "send_fault env w (id' order) submitted = None"
      "swap env (bestDex qA qB) (order\<lparr> status := submitted, updatedAt := now env submitted \<rparr>) = Inl f"
  | qA qB r f where "send_fault env w (id' order) routing = None"
      "quotes env (order\<lparr> status := routing, updatedAt := now env routing \<rparr>) = Inr (qA, qB)"
      "send_fault env w (id' order) building = None"
      "send_fault env w (id' order) submitted = None"
      "swap env (bestDex qA qB) (order\<lparr> status := submitted, updatedAt := now env submitted \<rparr>) = Inr r"
      "send_fault env w (id' order) confirmed = Some f"
  | qA qB r where "send_fault env w (id' order) routing = None"
      "quotes env (order\<lparr> status := routing, updatedAt := now env routing \<rparr>) = Inr (qA, qB)"
      "send_fault env w (id' order) building = None"
      "send_fault env w (id' order) submitted = None"
      "swap env (bestDex qA qB) (order\<lparr> status := submitted, updatedAt := now env submitted \<rparr>) = Inr r"
      "send_fault env w (id' order) confirmed = None"
proof (cases "send_fault env w (id' order) routing")
  case (Some f)
  then show ?thesis using that(1) by blast
next
  case n1: None
  show ?thesis
  proof (cases "quotes env (order\<lparr> status := routing, updatedAt := now env routing \<rparr>)")
    case (Inl f)
    then show ?thesis using n1 that(2) by blast
  next
    case (Inr p)
    then obtain qA qB where q: "quotes env (order\<lparr> status := routing, updatedAt := now env routing \<rparr>) = Inr (qA, qB)"
      by (cases p) auto
    show ?thesis
    proof (cases "send_fault env w (id' order) building")
      case (Some f)
      then show ?thesis using n1 q that(3) by blast
    next
      case n2: None
      show ?thesis
      proof (cases "send_fault env w (id' order) submitted")
        case (Some f)
        then show ?thesis using n1 q n2 that(4) by blast
      next
        case n3: None
        show ?thesis
        proof (cases "swap env (bestDex qA qB) (order\<lparr> status := submitted, updatedAt := now env submitted \<rparr>)")
          case (Inl f)
          then show ?thesis using n1 q n2 n3 that(5) by blast
        next
          case (Inr r)
          then show ?thesis using n1 q n2 n3 that(6)[of qA qB r] that(7)[of qA qB r]
            by (cases "send_fault env w (id' order) confirmed") auto
        qed
      qed
    qed
  qed
qed

lemmas run_unfold = worker_def worker_catch_eq try_unfold

lemma worker_other_venue:
  assumes "quotes env (order\<lparr> status := routing, updatedAt := now env routing \<rparr>) = Inr (qA, qB)"
    and "dex \<noteq> bestDex qA qB"
  shows "worker (env\<lparr> swap := (swap env)(dex := other) \<rparr>) order w = worker env order w"
  using assms
  by (cases rule: run_cases[of env w order]) (simp_all add: run_unfold)

lemma worker_logs_venue:
  assumes "quotes env (order\<lparr> status := routing, updatedAt := now env routing \<rparr>) = Inr (qA, qB)"
    and "send_fault env w (id' order) routing = None"
  shows "LogInfo (''Routing order '' @ id' order @ '' to '' @ bestDex qA qB)
           \<in> set (trace (snd (worker env order w)))"
  using assms
  by (cases rule: run_cases[of env w order]) (simp_all add: run_unfold)

text \<open>
  C2. The venue is \<open>raydium\<close> exactly when the Raydium quote is at most the Meteora quote,
  \<open>meteora\<close> otherwise; equal quotes give \<open>raydium\<close> through the same comparison. In the
  pipeline, for every pair of quotes that the two queries return: the log line names that
  venue, what \<^verbatim>\<open>executeSwap\<close> would do for any other venue has no effect on the run, and
  a run that returns has executed the swap at that venue and stored its hash; with the
  mock router the stored hash starts with the name of that venue.
\<close>

theorem C2_venue_selection:
  "bestDex qA qB = (if qA \<le> qB then ''raydium'' else ''meteora'') \<and>
   bestDex q q = ''raydium'' \<and>
   (quotes env (order\<lparr> status := routing, updatedAt := now env routing \<rparr>) = Inr (qA, qB) \<longrightarrow>
      (send_fault env w (id' order) routing = None \<longrightarrow>
         LogInfo (''Routing order '' @ id' order @ '' to '' @ (if qA \<le> qB then ''raydium'' else ''meteora''))
           \<in> set (trace (snd (worker env order w)))) \<and>
      (dex \<noteq> (if qA \<le> qB then ''raydium'' else ''meteora'') \<longrightarrow>
         worker (env\<lparr> swap := (swap env)(dex := other) \<rparr>) order w = worker env order w) \<and>
      (worker env order w = (Inr res, w') \<longrightarrow>
         (\<exists>r. swap env (if qA \<le> qB then ''raydium'' else ''meteora'')
                 (order\<lparr> status := submitted, updatedAt := now env submitted \<rparr>) = Inr r \<and>
              txHash (result_order res) = Some (res_txHash r)))) \<and>
   (worker (mock_env clock sends rndA rndB rndX uuid) order w = (Inr res, w') \<longrightarrow>
      txHash (result_order res) =
        Some ((if getRaydiumQuote rndA (tokenIn order) (tokenOut order) (amount order)
                  \<le> getMeteoraQuote rndB (tokenIn order) (tokenOut order) (amount order)
               then ''raydium'' else ''meteora'') @ ''_'' @ uuid))"
proof (intro conjI impI)
  show "bestDex qA qB = (if qA \<le> qB then ''raydium'' else ''meteora'')"
    by (simp add: bestDex_def)
  show "bestDex q q = ''raydium''"
    by (simp add: bestDex_def)
next
  assume q: "quotes env (order\<lparr> status := routing, updatedAt := now env routing \<rparr>) = Inr (qA, qB)"
    and "send_fault env w (id' order) routing = None"
  then show "LogInfo (''Routing order '' @ id' order @ '' to '' @ (if qA \<le> qB then ''raydium'' else ''meteora''))
           \<in> set (trace (snd (worker env order w)))"
    using worker_logs_venue[of env order qA qB w] by (simp add: bestDex_def)
next
  assume q: "quotes env (order\<lparr> status := routing, updatedAt := now env routing \<rparr>) = Inr (qA, qB)"
    and "dex \<noteq> (if qA \<le> qB then ''raydium'' else ''meteora'')"
  then show "worker (env\<lparr> swap := (swap env)(dex := other) \<rparr>) order w = worker env order w"
    using worker_other_venue[of env order qA qB dex other w] by (simp add: bestDex_def)
next
  assume q: "quotes env (order\<lparr> status := routing, updatedAt := now env routing \<rparr>) = Inr (qA, qB)"
    and run: "worker env order w = (Inr res, w')"
  from run obtain order' where t: "worker_try env (order, w) = (Inr (), order', w')"
    and r: "res = \<lparr> success = True, result_order = order' \<rparr>"
    unfolding worker_Inr_iff by blast
  from worker_try_success[OF t] q r
  show "\<exists>r. swap env (if qA \<le> qB then ''raydium'' else ''meteora'')
                 (order\<lparr> status := submitted, updatedAt := now env submitted \<rparr>) = Inr r \<and>
              txHash (result_order res) = Some (res_txHash r)"
    by (auto simp: bestDex_def)
next
  assume run: "worker (mock_env clock sends rndA rndB rndX uuid) order w = (Inr res, w')"
  from run obtain order' where t: "worker_try (mock_env clock sends rndA rndB rndX uuid) (order, w) = (Inr (), order', w')"
    and r: "res = \<lparr> success = True, result_order = order' \<rparr>"
    unfolding worker_Inr_iff by blast
  from worker_try_success[OF t] r
  show "txHash (result_order res) =
        Some ((if getRaydiumQuote rndA (tokenIn order) (tokenOut order) (amount order)
                  \<le> getMeteoraQuote rndB (tokenIn order) (tokenOut order) (amount order)
               then ''raydium'' else ''meteora'') @ ''_'' @ uuid)"
    by (auto simp: bestDex_def)
qed

theorem C2_venue_selection_witness:
  "(\<exists>res w'. worker (env_ok (1/2) 0) demo_order demo_world = (Inr res, w') \<and>
       txHash (result_order res) = Some (''meteora_'' @ swap_uuid) \<and>
       (\<exists>r. swap (env_ok (1/2) 0) ''meteora'' (demo_order\<lparr> status := submitted, updatedAt := 2202 \<rparr>)
              = Inr r \<and>
            txHash (result_order res) = Some (res_txHash r))) \<and>
   (\<exists>res w'. worker (env_ok 0 0) demo_order demo_world = (Inr res, w') \<and>
       txHash (result_order res) = Some (''raydium_'' @ swap_uuid)) \<and>
   (\<exists>res w'. worker (env_ok 0 (1/2)) demo_order demo_world = (Inr res, w') \<and>
       txHash (result_order res) = Some (''raydium_'' @ swap_uuid)) \<and>
   LogInfo (''Routing order '' @ demo_id @ '' to meteora'')
     \<in> set (trace (snd (worker (env_ok (1/2) 0) demo_order demo_world))) \<and>
   worker ((env_ok (1/2) 0)\<lparr> swap := (swap (env_ok (1/2) 0))(''raydium'' := swap_down) \<rparr>)
       demo_order demo_world
     = worker (env_ok (1/2) 0) demo_order demo_world"
proof -
  have run: "\<exists>res w'. worker (env_ok a b) demo_order demo_world = (Inr res, w')" for a b
    by (rule worker_completes) simp_all
  have tx: "worker (env_ok a b) demo_order demo_world = (Inr res, w') \<Longrightarrow>
      txHash (result_order res) =
        Some ((if getRaydiumQuote a ''SOL'' ''USDC'' (3/2) \<le> getMeteoraQuote b ''SOL'' ''USDC'' (3/2)
               then ''raydium'' else ''meteora'') @ ''_'' @ swap_uuid)" for a b res w'
    using C2_venue_selection[where order = demo_order and clock = demo_clock and sends = "\<lambda>st. None"
        and rndA = a and rndB = b and rndX = 0 and uuid = swap_uuid and w = demo_world
        and res = res and w' = w']
    by (simp add: env_ok_def demo_order_def)
  have q: "quotes (env_ok (1/2) 0)
      (demo_order\<lparr> status := routing, updatedAt := now (env_ok (1/2) 0) routing \<rparr>) = Inr (100, 97)"
    by (simp add: demo_order_def)
  have sw: "worker (env_ok (1/2) 0) demo_order demo_world = (Inr res, w') \<Longrightarrow>
      \<exists>r. swap (env_ok (1/2) 0) ''meteora'' (demo_order\<lparr> status := submitted, updatedAt := 2202 \<rparr>)
              = Inr r \<and>
           txHash (result_order res) = Some (res_txHash r)" for res w'
    using q C2_venue_selection[where qA = 100 and qB = 97 and env = "env_ok (1/2) 0"
        and order = demo_order and w = demo_world and res = res and w' = w']
    by simp
  have lg: "LogInfo (''Routing order '' @ demo_id @ '' to meteora'')
     \<in> set (trace (snd (worker (env_ok (1/2) 0) demo_order demo_world)))"
    using q C2_venue_selection[where qA = 100 and qB = 97 and env = "env_ok (1/2) 0"
        and order = demo_order and w = demo_world]
    by simp
  have ot: "worker ((env_ok (1/2) 0)\<lparr> swap := (swap (env_ok (1/2) 0))(''raydium'' := swap_down) \<rparr>)
       demo_order demo_world
     = worker (env_ok (1/2) 0) demo_order demo_world"
    using q C2_venue_selection[where qA = 100 and qB = 97 and env = "env_ok (1/2) 0"
        and order = demo_order and w = demo_world and dex = "''raydium''" and other = swap_down]
    by simp
  obtain res w' where r1: "worker (env_ok (1/2) 0) demo_order demo_world = (Inr res, w')"
    using run[of "1/2" 0] by blast
  have a: "\<exists>res w'. worker (env_ok (1/2) 0) demo_order demo_world = (Inr res, w') \<and>
       txHash (result_order res) = Some (''meteora_'' @ swap_uuid) \<and>
       (\<exists>r. swap (env_ok (1/2) 0) ''meteora'' (demo_order\<lparr> status := submitted, updatedAt := 2202 \<rparr>)
              = Inr r \<and>
            txHash (result_order res) = Some (res_txHash r))"
    using r1 tx[OF r1] sw[OF r1] by (intro exI[of _ res] exI[of _ w']) simp
  have b: "\<exists>res w'. worker (env_ok 0 0) demo_order demo_world = (Inr res, w') \<and>
       txHash (result_order res) = Some (''raydium_'' @ swap_uuid)"
    using run[of 0 0] tx[of 0 0] by auto
  have c: "\<exists>res w'. worker (env_ok 0 (1/2)) demo_order demo_world = (Inr res, w') \<and>
       txHash (result_order res) = Some (''raydium_'' @ swap_uuid)"
    using run[of 0 "1/2"] tx[of 0 "1/2"] by auto
  show ?thesis using a b c lg ot by blast
qed

section \<open>The fault path\<close>

lemma worker_try_fault:
  assumes "worker_try env (order, w) = (Inl e, order', w')"
  shows "id' order' = id' order \<and> connections w' = connections w \<and>
        ((\<exists>st \<in> {routing, building, submitted, confirmed}. send_fault env w (id' order) st = Some e) \<or>
         quotes env (order\<lparr> status := routing, updatedAt := now env routing \<rparr>) = Inl e \<or>
         (\<exists>qA qB. swap env (bestDex qA qB) (order\<lparr> status := submitted, updatedAt := now env submitted \<rparr>) = Inl e))"
  using assms
  by (cases rule: run_cases[of env w order]) (auto simp: try_unfold)

lemma pushes_cong: "connections w' = connections w \<Longrightarrow> pushes w' = pushes w"
  by (simp add: pushes_def fun_eq_iff)

lemma send_fault_cong: "connections w' = connections w \<Longrightarrow> send_fault env w' = send_fault env w"
  by (simp add: send_fault_def fun_eq_iff)

text \<open>
  C3. When a step of the \<^verbatim>\<open>try\<close> block throws \<open>e\<close> (the quotes, the venue execution or a
  notification), the handler sets the status to \<open>failed\<close>, the error to the message of \<open>e\<close>
  and \<open>updatedAt\<close> to the time of the transition, writes the order to the store, sends
  \<open>{status: failed, orderId, error}\<close> on the socket bound to the order (nothing when none is
  bound), and throws the same \<open>e\<close> to the queue. The \<^verbatim>\<open>send\<close> of that notification stands
  before \<^verbatim>\<open>throw error\<close>; the statement is for a \<^verbatim>\<open>send\<close> that returns, as \<^verbatim>\<open>send\<close> does on
  every socket of the transport that has been connected.
\<close>

theorem C3_fault_path:
  assumes "worker_try env (order, w) = (Inl e, order', w')"
    and "send_fault env w (id' order) failed = None"
  shows "(let failed_order = order'\<lparr> status := failed, error := Some (fault_message e),
                                       updatedAt := now env failed \<rparr>
          in id' order' = id' order \<and>
             orderStore (snd (worker env order w)) = (orderStore w')(id' order \<mapsto> failed_order) \<and>
             trace (snd (worker env order w)) =
               trace w' @ [StoreSet failed_order] @
               pushes w (id' order)
                 [(''status'', JString ''failed''), (''orderId'', JString (id' order)),
                  (''error'', JString (fault_message e))] \<and>
             fst (worker env order w) = Inl e) \<and>
         ((\<exists>st \<in> {routing, building, submitted, confirmed}. send_fault env w (id' order) st = Some e) \<or>
          quotes env (order\<lparr> status := routing, updatedAt := now env routing \<rparr>) = Inl e \<or>
          (\<exists>qA qB. swap env (bestDex qA qB)
                      (order\<lparr> status := submitted, updatedAt := now env submitted \<rparr>) = Inl e))"
proof -
  have f: "id' order' = id' order" "connections w' = connections w"
    "(\<exists>st \<in> {routing, building, submitted, confirmed}. send_fault env w (id' order) st = Some e) \<or>
          quotes env (order\<lparr> status := routing, updatedAt := now env routing \<rparr>) = Inl e \<or>
          (\<exists>qA qB. swap env (bestDex qA qB)
                      (order\<lparr> status := submitted, updatedAt := now env submitted \<rparr>) = Inl e)"
    using worker_try_fault[OF assms(1)] by blast+
  have "worker env order w = worker_catch env e (order', w')"
    using assms(1) by (simp add: worker_def)
  then show ?thesis
    using f assms(2)
    by (simp add: worker_catch_eq Let_def pushes_cong[OF f(2)] send_fault_cong[OF f(2)])
qed

lemma env_quotes_fail_simps [simp]:
  "now (env_quotes_fail sends) = demo_clock"
  "send_result (env_quotes_fail sends) = sends"
  "quotes (env_quotes_fail sends) order = Inl (Error ''quote timeout'')"
  by (simp_all add: env_quotes_fail_def)

lemma send_fault_demo [simp]:
  "send_fault env demo_world demo_id st = None"
  "send_fault env demo_world_connected demo_id st = send_result env st"
  "pushes demo_world demo_id msg = []"
  "pushes demo_world_connected demo_id msg = [WsSend 7 msg]"
  by (simp_all add: send_fault_def pushes_def)

lemma throws_at_simps [simp]:
  "throws_at bad bad = Some (Error ''socket closed'')"
  "never_throws st = None"
  by (simp_all add: throws_at_def never_throws_def)

theorem C3_fault_path_witness:
  "fst (worker_try (env_quotes_fail never_throws) (demo_order, demo_world_connected))
     = Inl (Error ''quote timeout'') \<and>
   send_fault (env_quotes_fail never_throws) demo_world_connected (id' demo_order) failed = None \<and>
   fst (worker (env_quotes_fail never_throws) demo_order demo_world_connected)
     = Inl (Error ''quote timeout'') \<and>
   orderStore (snd (worker (env_quotes_fail never_throws) demo_order demo_world_connected)) demo_id
     = Some (demo_order\<lparr> status := failed, error := Some ''quote timeout'', updatedAt := 4701 \<rparr>) \<and>
   pushed (drop 2 (trace (snd (worker (env_quotes_fail never_throws) demo_order demo_world_connected))))
     = [(7, [(''status'', JString ''routing''), (''orderId'', JString demo_id)]),
        (7, [(''status'', JString ''failed''), (''orderId'', JString demo_id),
             (''error'', JString ''quote timeout'')])]"
proof -
  have t: "worker_try (env_quotes_fail never_throws) (demo_order, demo_world_connected) =
      (Inl (Error ''quote timeout''), demo_order\<lparr> status := routing, updatedAt := 2000 \<rparr>,
       demo_world_connected\<lparr> orderStore := (orderStore demo_world_connected)(demo_id \<mapsto>
             demo_order\<lparr> status := routing, updatedAt := 2000 \<rparr>),
          trace := trace demo_world_connected @
            [StoreSet (demo_order\<lparr> status := routing, updatedAt := 2000 \<rparr>),
             WsSend 7 [(''status'', JString ''routing''), (''orderId'', JString demo_id)]] \<rparr>)"
    by (simp add: try_unfold)
  have s: "send_fault (env_quotes_fail never_throws) demo_world_connected (id' demo_order) failed = None"
    by simp
  show ?thesis using C3_fault_path[OF t s] s by (simp add: t Let_def)
qed

section \<open>Notifications and the outcome\<close>


lemma no_connections_simps [simp]:
  "send_fault env (w\<lparr> connections := Map.empty \<rparr>) i st = None"
  "pushes (w\<lparr> connections := Map.empty \<rparr>) i m = []"
  by (simp_all add: send_fault_def pushes_def)

lemma delivery_simps [simp]:
  "send_fault env (w\<lparr> delivery := d \<rparr>) = send_fault env w"
  "pushes (w\<lparr> delivery := d \<rparr>) = pushes w"
  by (simp_all add: send_fault_def pushes_def fun_eq_iff)


lemma pushed_pushes [simp]:
  "pushed (pushes w i m) = (case connections w i of None \<Rightarrow> [] | Some socket \<Rightarrow> [(socket, m)])"
  by (simp add: pushes_def split: option.splits)





lemma socket_closing_7 [simp]:
  "socket_closing 7 = Some (Error ''WebSocket is not open: readyState 2 (CLOSING)'')"
  by (simp add: socket_closing_def)


section \<open>The invariant of the stored orders\<close>

lemma worker_writes_inv:
  assumes "txHash order = None" "error order = None" "send_fault env w (id' order) confirmed = None"
  shows "list_all order_inv (writes (drop (length (trace w)) (trace (snd (worker env order w)))))"
  using assms
  by (cases rule: run_cases[of env w order]) (simp_all add: run_unfold order_inv_def)

lemma submit_writes:
  "writes (drop (length (trace w)) (trace (snd (submit_order uuid t1 t2 add_result req w)))) =
     [\<lparr> id' = uuid, tokenIn = req_tokenIn req, tokenOut = req_tokenOut req,
        amount = req_amount req, status = pending, txHash = None, error = None,
        createdAt = t1, updatedAt = t2 \<rparr>]"
  by (simp add: submit_order_def orderStore_set_def orderQueue_add_def Let_def split: option.splits)

text \<open>
  C5. Every order written to the store has \<open>txHash\<close> only with status \<open>confirmed\<close> and
  \<open>error\<close> only with status \<open>failed\<close>: the order that the submission handler writes,
  whether or not the enqueue succeeds, and every order that a run of the worker writes,
  on its transitions and on its fault path, for a job whose order has neither field, as
  the submission handler enqueues it. The hash is assigned right before the transition
  to \<open>confirmed\<close>; the statement is for a \<^verbatim>\<open>send\<close> of that transition that returns, as \<^verbatim>\<open>send\<close>
  does on every socket of the transport that has been connected.
\<close>

theorem C5_order_invariant:
  "list_all order_inv
     (writes (drop (length (trace w)) (trace (snd (submit_order uuid t1 t2 add_result req w))))) \<and>
   (txHash order = None \<and> error order = None \<and> send_fault env w (id' order) confirmed = None \<longrightarrow>
      list_all order_inv (writes (drop (length (trace w)) (trace (snd (worker env order w))))))"
  using worker_writes_inv[of order env w]
  by (simp add: submit_writes order_inv_def)

theorem C5_order_invariant_witness:
  "txHash demo_order = None \<and> error demo_order = None \<and>
   send_fault (env_ok 0 0) demo_world_connected (id' demo_order) confirmed = None \<and>
   send_fault (env_quotes_fail never_throws) demo_world_connected (id' demo_order) confirmed = None \<and>
   list_all order_inv (writes (drop (length (trace world_init))
      (trace (snd (submit_order demo_id 1000 1001 None demo_request world_init))))) \<and>
   list_all order_inv (writes (drop (length (trace demo_world_connected))
      (trace (snd (worker (env_ok 0 0) demo_order demo_world_connected))))) \<and>
   map status (writes (drop (length (trace demo_world_connected))
      (trace (snd (worker (env_ok 0 0) demo_order demo_world_connected)))))
     = [routing, building, submitted, confirmed] \<and>
   list_all order_inv (writes (drop (length (trace demo_world_connected))
      (trace (snd (worker (env_quotes_fail never_throws) demo_order demo_world_connected))))) \<and>
   map status (writes (drop (length (trace demo_world_connected))
      (trace (snd (worker (env_quotes_fail never_throws) demo_order demo_world_connected)))))
     = [routing, failed]"
proof -
  have a: "txHash demo_order = None \<and> error demo_order = None" by (simp add: demo_order_def)
  have b: "send_fault (env_ok 0 0) demo_world_connected (id' demo_order) confirmed = None"
    "send_fault (env_quotes_fail never_throws) demo_world_connected (id' demo_order) confirmed = None"
    by simp_all
  have c: "map status (writes (drop (length (trace demo_world_connected))
      (trace (snd (worker (env_ok 0 0) demo_order demo_world_connected)))))
     = [routing, building, submitted, confirmed]"
    by (simp add: run_unfold bestDex_def)
  have d: "map status (writes (drop (length (trace demo_world_connected))
      (trace (snd (worker (env_quotes_fail never_throws) demo_order demo_world_connected)))))
     = [routing, failed]"
    by (simp add: run_unfold)
  show ?thesis
    using a b c d
      C5_order_invariant[where w = world_init and uuid = demo_id and ?t1.0 = 1000 and ?t2.0 = 1001
        and add_result = None and req = demo_request]
      C5_order_invariant[where w = demo_world_connected and order = demo_order and env = "env_ok 0 0"]
      C5_order_invariant[where w = demo_world_connected and order = demo_order
        and env = "env_quotes_fail never_throws"]
    by blast
qed

section \<open>The snapshot on connect\<close>

lemma snapshot_eq:
  "snapshot order =
     [(''status'', JString (status_name (status order))), (''orderId'', JString (id' order))] @
     (case txHash order of None \<Rightarrow> [] | Some t \<Rightarrow> [(''txHash'', JString t)]) @
     (case error order of None \<Rightarrow> [] | Some m \<Rightarrow> [(''error'', JString m)])"
  by (simp add: snapshot_def split: option.splits)

lemma ws_connect_eq:
  "ws_connect out orderId socket w =
     (case orderStore w orderId of None \<Rightarrow> None | Some order \<Rightarrow> out,
      w\<lparr> connections := (connections w)(orderId \<mapsto> socket),
         trace := trace w @ (case orderStore w orderId of None \<Rightarrow> []
                             | Some order \<Rightarrow> [WsSend socket (snapshot order)]) \<rparr>)"
  by (simp add: ws_connect_def socket_send_def Let_def split: option.splits)

lemma worker_appends:
  "\<exists>ts. trace (snd (worker env order w)) = trace w @ ts \<and>
        (\<forall>socket. connections w (id' order) = Some socket \<longrightarrow> list_all (\<lambda>x. fst x = socket) (pushed ts))"
  by (cases rule: run_cases[of env w order]) (simp_all add: run_unfold)

lemma worker_terminal:
  "\<exists>order'. orderStore (snd (worker env order w)) (id' order) = Some order' \<and>
            (status order' = confirmed \<or> status order' = failed)"
  by (cases rule: run_cases[of env w order]) (simp_all add: run_unfold)

lemma worker_success_store:
  assumes "worker_try env (order, w) = (Inr u, order', w')"
  shows "\<exists>r::SwapResult. order' = order\<lparr> status := confirmed, txHash := Some (res_txHash r),
                                updatedAt := now env confirmed \<rparr> \<and>
             orderStore w' (id' order) = Some order'"
proof (cases rule: run_cases[of env w order])
  case (returns qA qB r)
  with assms have "order' = order\<lparr> status := confirmed, txHash := Some (res_txHash r),
                                updatedAt := now env confirmed \<rparr> \<and>
             orderStore w' (id' order) = Some order'"
    by (auto simp: try_unfold)
  then show ?thesis by blast
qed (use assms in \<open>simp_all add: try_unfold\<close>)

text \<open>
  C7. A connection for \<open>orderId\<close> binds the socket to that id, replacing what was bound,
  and leaves the store as it is. When the store has an order for the id, the handler
  makes exactly one \<^verbatim>\<open>send\<close> on the socket, with the order's status, its id, and its
  \<open>txHash\<close> and \<open>error\<close> when they are set; when it has none, it sends nothing. The live
  updates of a run of the worker that follows come after the snapshot in the history and
  go to this socket. After any run of the worker the stored order is \<open>confirmed\<close> or
  \<open>failed\<close>, and a socket that connects then is sent the snapshot of that order and
  nothing else.
\<close>

theorem C7_connect_snapshot:
  "connections (snd (ws_connect out orderId socket w)) = (connections w)(orderId \<mapsto> socket) \<and>
   orderStore (snd (ws_connect out orderId socket w)) = orderStore w \<and>
   trace (snd (ws_connect out orderId socket w)) =
     trace w @
     (case orderStore w orderId of
        None \<Rightarrow> []
      | Some order \<Rightarrow>
          [WsSend socket
            ([(''status'', JString (status_name (status order))), (''orderId'', JString (id' order))] @
             (case txHash order of None \<Rightarrow> [] | Some t \<Rightarrow> [(''txHash'', JString t)]) @
             (case error order of None \<Rightarrow> [] | Some m \<Rightarrow> [(''error'', JString m)]))]) \<and>
   (\<exists>ts. trace (snd (worker env order (snd (ws_connect out (id' order) socket w)))) =
           trace (snd (ws_connect out (id' order) socket w)) @ ts \<and>
         list_all (\<lambda>x. fst x = socket) (pushed ts)) \<and>
   (worker env order w = (r, w') \<longrightarrow>
      (\<exists>order'. orderStore w' (id' order) = Some order' \<and>
                 (status order' = confirmed \<or> status order' = failed) \<and>
                 pushed (drop (length (trace w')) (trace (snd (ws_connect out (id' order) socket w'))))
                   = [(socket, snapshot order')]))"
proof (intro conjI impI)
  show "connections (snd (ws_connect out orderId socket w)) = (connections w)(orderId \<mapsto> socket)"
    and "orderStore (snd (ws_connect out orderId socket w)) = orderStore w"
    by (simp_all add: ws_connect_eq)
  show "trace (snd (ws_connect out orderId socket w)) =
     trace w @
     (case orderStore w orderId of
        None \<Rightarrow> []
      | Some order \<Rightarrow>
          [WsSend socket
            ([(''status'', JString (status_name (status order))), (''orderId'', JString (id' order))] @
             (case txHash order of None \<Rightarrow> [] | Some t \<Rightarrow> [(''txHash'', JString t)]) @
             (case error order of None \<Rightarrow> [] | Some m \<Rightarrow> [(''error'', JString m)]))])"
    by (simp add: ws_connect_eq snapshot_eq split: option.splits)
  show "\<exists>ts. trace (snd (worker env order (snd (ws_connect out (id' order) socket w)))) =
           trace (snd (ws_connect out (id' order) socket w)) @ ts \<and>
         list_all (\<lambda>x. fst x = socket) (pushed ts)"
    using worker_appends[of env order "snd (ws_connect out (id' order) socket w)"]
    by (simp add: ws_connect_eq)
next
  assume "worker env order w = (r, w')"
  then have w': "w' = snd (worker env order w)" by simp
  from worker_terminal[of env order w] obtain order' where
    o: "orderStore w' (id' order) = Some order'" "status order' = confirmed \<or> status order' = failed"
    unfolding w' by blast
  then show "\<exists>order'. orderStore w' (id' order) = Some order' \<and>
                 (status order' = confirmed \<or> status order' = failed) \<and>
                 pushed (drop (length (trace w')) (trace (snd (ws_connect out (id' order) socket w'))))
                   = [(socket, snapshot order')]"
    by (simp add: ws_connect_eq)
qed

theorem C7_connect_snapshot_witness:
  "pushed (trace (snd (ws_connect None demo_id 7 demo_world)))
     = [(7, [(''status'', JString ''pending''), (''orderId'', JString demo_id)])] \<and>
   pushed (trace (snd (ws_connect None ''no-such-order'' 7 demo_world))) = [] \<and>
   (\<exists>order'. orderStore (snd (worker (env_ok 0 0) demo_order demo_world)) demo_id = Some order' \<and>
      status order' = confirmed \<and>
      pushed (trace (snd (ws_connect None demo_id 7 (snd (worker (env_ok 0 0) demo_order demo_world)))))
        = [(7, [(''status'', JString ''confirmed''), (''orderId'', JString demo_id),
                (''txHash'', JString (''raydium_'' @ swap_uuid))])])"
proof -
  obtain r w' where run: "worker (env_ok 0 0) demo_order demo_world = (r, w')"
    by (cases "worker (env_ok 0 0) demo_order demo_world") auto
  have st: "orderStore w' demo_id = Some (demo_order\<lparr> status := confirmed,
      txHash := Some (''raydium_'' @ swap_uuid), updatedAt := 4700 \<rparr>)"
    and tr: "pushed (trace w') = []"
    using run by (auto simp: run_unfold bestDex_def)
  from C7_connect_snapshot[where env = "env_ok 0 0" and order = demo_order and w = demo_world
      and r = r and w' = w' and out = None and socket = 7] run
  obtain order' where o: "orderStore w' (id' demo_order) = Some order'"
    "pushed (drop (length (trace w')) (trace (snd (ws_connect None (id' demo_order) 7 w'))))
       = [(7, snapshot order')]"
    by blast
  have a: "pushed (trace (snd (ws_connect None demo_id 7 demo_world)))
     = [(7, [(''status'', JString ''pending''), (''orderId'', JString demo_id)])]"
    using C7_connect_snapshot[where w = demo_world and orderId = demo_id and out = None and socket = 7]
    by (simp add: demo_world_eq demo_order_def)
  have b: "pushed (trace (snd (ws_connect None ''no-such-order'' 7 demo_world))) = []"
    using C7_connect_snapshot[where w = demo_world and orderId = "''no-such-order''" and out = None and socket = 7]
    by (simp add: demo_world_eq demo_order_def demo_id_def)
  from o st have "order' = demo_order\<lparr> status := confirmed,
      txHash := Some (''raydium_'' @ swap_uuid), updatedAt := 4700 \<rparr>" by simp
  then have c: "pushed (trace (snd (ws_connect None demo_id 7 w')))
        = [(7, [(''status'', JString ''confirmed''), (''orderId'', JString demo_id),
                (''txHash'', JString (''raydium_'' @ swap_uuid))])]"
    using o(2) tr st by (simp add: ws_connect_eq snapshot_eq demo_order_def)
  show ?thesis using a b c st run by simp
qed

text \<open>
  C10. The snapshot has no other keys than \<open>status\<close>, \<open>orderId\<close>, \<open>txHash\<close> and \<open>error\<close>, never
  \<open>executedPrice\<close>, and it has the order's \<open>txHash\<close> when the order has one. A socket that
  connects to a stored order is sent this snapshot only; after a run that has returned
  (for a job whose order has no error) it is \<open>{status: confirmed, orderId, txHash}\<close> with
  the hash of the swap.
\<close>

theorem C10_snapshot_fields:
  "set (map fst (snapshot order)) \<subseteq> {''status'', ''orderId'', ''txHash'', ''error''} \<and>
   ''executedPrice'' \<notin> set (map fst (snapshot order)) \<and>
   map_of (snapshot order) ''txHash'' = map_option JString (txHash order) \<and>
   (orderStore w orderId = Some order \<longrightarrow>
      pushed (drop (length (trace w)) (trace (snd (ws_connect out orderId socket w))))
        = [(socket, snapshot order)]) \<and>
   (error order = None \<and> worker env order w = (Inr res, w') \<longrightarrow>
      (\<exists>r::SwapResult. txHash (result_order res) = Some (res_txHash r) \<and>
           pushed (drop (length (trace w')) (trace (snd (ws_connect out (id' order) socket w'))))
             = [(socket, [(''status'', JString ''confirmed''), (''orderId'', JString (id' order)),
                          (''txHash'', JString (res_txHash r))])]))"
proof (intro conjI impI)
  show "set (map fst (snapshot order)) \<subseteq> {''status'', ''orderId'', ''txHash'', ''error''}"
    by (auto simp: snapshot_eq split: option.splits)
  show "''executedPrice'' \<notin> set (map fst (snapshot order))"
    by (auto simp: snapshot_eq split: option.splits)
  show "map_of (snapshot order) ''txHash'' = map_option JString (txHash order)"
    by (auto simp: snapshot_eq split: option.splits)
next
  assume "orderStore w orderId = Some order"
  then show "pushed (drop (length (trace w)) (trace (snd (ws_connect out orderId socket w))))
        = [(socket, snapshot order)]"
    by (simp add: ws_connect_eq)
next
  assume a: "error order = None \<and> worker env order w = (Inr res, w')"
  then obtain order' where t: "worker_try env (order, w) = (Inr (), order', w')"
    and r: "res = \<lparr> success = True, result_order = order' \<rparr>"
    unfolding worker_Inr_iff by blast
  from worker_success_store[OF t] obtain x :: SwapResult where
    o: "order' = order\<lparr> status := confirmed, txHash := Some (res_txHash x),
                          updatedAt := now env confirmed \<rparr>"
    and s: "orderStore w' (id' order) = Some order'"
    by blast
  have "txHash (result_order res) = Some (res_txHash x) \<and>
           pushed (drop (length (trace w')) (trace (snd (ws_connect out (id' order) socket w'))))
             = [(socket, [(''status'', JString ''confirmed''), (''orderId'', JString (id' order)),
                          (''txHash'', JString (res_txHash x))])]"
    using a r s by (simp add: ws_connect_eq snapshot_eq o)
  then show "\<exists>r::SwapResult. txHash (result_order res) = Some (res_txHash r) \<and>
           pushed (drop (length (trace w')) (trace (snd (ws_connect out (id' order) socket w'))))
             = [(socket, [(''status'', JString ''confirmed''), (''orderId'', JString (id' order)),
                          (''txHash'', JString (res_txHash r))])]"
    by blast
qed

theorem C10_snapshot_fields_witness:
  "error demo_order = None \<and>
   (\<exists>res w'. worker (env_ok 0 0) demo_order demo_world = (Inr res, w') \<and>
      txHash (result_order res) = Some (''raydium_'' @ swap_uuid) \<and>
      pushed (drop (length (trace w')) (trace (snd (ws_connect None demo_id 7 w'))))
        = [(7, [(''status'', JString ''confirmed''), (''orderId'', JString demo_id),
                (''txHash'', JString (''raydium_'' @ swap_uuid))])]) \<and>
   orderStore demo_world demo_id = Some demo_order \<and>
   pushed (drop (length (trace demo_world)) (trace (snd (ws_connect None demo_id 7 demo_world))))
     = [(7, snapshot demo_order)]"
proof -
  have e: "error demo_order = None" by (simp add: demo_order_def)
  obtain res w' where run: "worker (env_ok 0 0) demo_order demo_world = (Inr res, w')"
    using worker_completes[of "env_ok 0 0" demo_order 97 97 "executeSwap swap_uuid 0 (bestDex 97 97)
        (demo_order\<lparr> status := submitted, updatedAt := 2202 \<rparr>)" demo_world]
    by auto
  have tx: "txHash (result_order res) = Some (''raydium_'' @ swap_uuid)"
    using run by (auto simp: run_unfold bestDex_def)
  from C10_snapshot_fields[where order = demo_order and env = "env_ok 0 0" and w = demo_world
      and res = res and w' = w' and out = None and socket = 7] e run
  obtain r :: SwapResult where "txHash (result_order res) = Some (res_txHash r)"
    "pushed (drop (length (trace w')) (trace (snd (ws_connect None (id' demo_order) 7 w'))))
       = [(7, [(''status'', JString ''confirmed''), (''orderId'', JString (id' demo_order)),
               (''txHash'', JString (res_txHash r))])]"
    by blast
  then have p: "pushed (drop (length (trace w')) (trace (snd (ws_connect None demo_id 7 w'))))
        = [(7, [(''status'', JString ''confirmed''), (''orderId'', JString demo_id),
                (''txHash'', JString (''raydium_'' @ swap_uuid))])]"
    using tx by simp
  have s: "orderStore demo_world demo_id = Some demo_order" by (simp add: demo_world_eq)
  have q: "pushed (drop (length (trace demo_world)) (trace (snd (ws_connect None demo_id 7 demo_world))))
     = [(7, snapshot demo_order)]"
    using C10_snapshot_fields[where order = demo_order and w = demo_world and orderId = demo_id
        and out = None and socket = 7] s
    by blast
  show ?thesis using e run tx p s q by blast
qed

section \<open>Submission\<close>




end
